theory Spec2Isabelle
  imports Main
begin

section \<open>Python values\<close>

text \<open>
  The program is dynamically typed Python: a decoded YAML document is a nest of
  \<open>None\<close>, booleans, integers, strings, lists and string-keyed dicts, and
  \<open>SSMParameter.load\<close> wraps some strings in \<open>VarString\<close> objects.
  One datatype holds them all. A dict is an association list in insertion order
  (keys are looked up with \<open>map_of\<close>, so the first entry of a key is the entry).
  A \<open>VarString\<close> object carries its attributes \<open>string\<close>, \<open>names\<close>,
  \<open>_key_id\<close> and the cache \<open>_value\<close> (\<open>None\<close> in Python when nothing is cached).
  Strings are byte strings here; floats and dates of YAML are not modelled.
\<close>

datatype pyobj =
    PNone
  | PBool bool
  | PInt int
  | PStr string
  | PList "pyobj list"
  | PDict "(string \<times> pyobj) list"
  | PVar (vs_string: string) (vs_names: "string list") (vs_key_id: pyobj) (vs_value: "string option")

text \<open>
  What the program raises. \<open>ValueError\<close> and \<open>InputError\<close> carry the constant part of
  the message the source gives them; \<open>ReError\<close> is \<open>re.error\<close>.
\<close>

datatype error =
    KeyError
  | TypeError string
  | AttributeError
  | IndexError
  | EOFError
  | ReError
  | ValueError string
  | InputError string

text \<open>Truth value testing (\<open>bool(x)\<close>, \<open>if x\<close>, \<open>not x\<close>, \<open>x or y\<close>).
  \<open>VarString\<close> defines neither \<open>__bool__\<close> nor \<open>__len__\<close>, so its instances are true.\<close>

fun truthy :: "pyobj \<Rightarrow> bool" where
  "truthy PNone = False"
| "truthy (PBool b) = b"
| "truthy (PInt n) = (n \<noteq> 0)"
| "truthy (PStr s) = (s \<noteq> [])"
| "truthy (PList xs) = (xs \<noteq> [])"
| "truthy (PDict kvs) = (kvs \<noteq> [])"
| "truthy (PVar s ns k c) = True"

text \<open>\<open>x == 'literal'\<close> for a string literal on the right. A \<open>VarString\<close> on the left
  answers through its \<open>__eq__\<close>, which compares its template.\<close>

fun py_eq_str :: "pyobj \<Rightarrow> string \<Rightarrow> bool" where
  "py_eq_str (PStr s) t = (s = t)"
| "py_eq_str (PVar s ns k c) t = (s = t)"
| "py_eq_str _ t = False"

section \<open>SSMParameter\<close>

text \<open>The attributes \<open>__init__\<close> stores (\<open>self._name\<close> is \<open>p_name\<close>, and so on).\<close>

record ssm_parameter =
  p_name :: pyobj
  p_type :: pyobj
  p_value :: pyobj
  p_allowed_pattern :: pyobj
  p_description :: pyobj
  p_key_id :: pyobj
  p_overwrite :: pyobj
  p_disable :: pyobj
  p_version :: pyobj
  p_last_modified_date :: pyobj
  p_last_modified_user :: pyobj

text \<open>\<open>SSMParameter.__init__\<close> (parameters.py, lines 373-396).\<close>

definition SSMParameter_init ::
  "pyobj \<Rightarrow> pyobj \<Rightarrow> pyobj \<Rightarrow> pyobj \<Rightarrow> pyobj \<Rightarrow> pyobj \<Rightarrow> pyobj \<Rightarrow> pyobj
    \<Rightarrow> error + ssm_parameter" where
  "SSMParameter_init name type val allowed_pattern description key_id overwrite disable =
     (if (truthy key_id \<and> \<not> py_eq_str type ''SecureString'')
         \<or> (py_eq_str type ''SecureString'' \<and> \<not> truthy key_id)
      then Inl (ValueError ''Mismatched secure inputs on parameter'')
      else Inr \<lparr> p_name = name, p_type = type, p_value = val,
                 p_allowed_pattern = allowed_pattern, p_description = description,
                 p_key_id = key_id, p_overwrite = overwrite, p_disable = disable,
                 p_version = PNone, p_last_modified_date = PNone,
                 p_last_modified_user = PNone \<rparr>)"

section \<open>Dictionaries and equality\<close>

text \<open>\<open>d.get(k)\<close>, \<open>k in d\<close> and \<open>d[k] = v\<close> on insertion-ordered dicts: a key that
  is already there keeps its place, a new key goes to the end.\<close>

definition dict_get :: "(string \<times> pyobj) list \<Rightarrow> string \<Rightarrow> pyobj" where
  "dict_get d k = (case map_of d k of None \<Rightarrow> PNone | Some v \<Rightarrow> v)"

definition dict_has :: "('k \<times> 'v) list \<Rightarrow> 'k \<Rightarrow> bool" where
  "dict_has d k = (map_of d k \<noteq> None)"

fun dict_set :: "('k \<times> 'v) list \<Rightarrow> 'k \<Rightarrow> 'v \<Rightarrow> ('k \<times> 'v) list" where
  "dict_set [] k v = [(k, v)]"
| "dict_set ((k', v') # d) k v =
     (if k' = k then (k', v) # d else (k', v') # dict_set d k v)"

lemma size_map_of:
  "map_of a k = Some v \<Longrightarrow> size v < Suc (size_list (size_prod (\<lambda>_. 0) size) a)"
  by (induction a) (auto split: if_splits)

text \<open>
  \<open>x == y\<close> on document values: \<open>True == 1\<close>, lists compare element by element, dicts
  compare as mappings whatever the order of their keys. A \<open>VarString\<close> compares its
  template with a string or with another \<open>VarString\<close>; compared with anything else its
  \<open>__eq__\<close> raises \<open>AttributeError\<close>, which no caller of \<open>py_eq\<close> can reach
  (the fields of an \<open>Input\<close> are document values), and the model answers \<open>False\<close>.
\<close>

function py_eq :: "pyobj \<Rightarrow> pyobj \<Rightarrow> bool" where
  "py_eq PNone y = (y = PNone)"
| "py_eq (PBool a) y =
     (case y of PBool b \<Rightarrow> a = b | PInt n \<Rightarrow> (if a then 1 else 0) = n | _ \<Rightarrow> False)"
| "py_eq (PInt m) y =
     (case y of PBool b \<Rightarrow> m = (if b then 1 else 0) | PInt n \<Rightarrow> m = n | _ \<Rightarrow> False)"
| "py_eq (PStr s) y = (case y of PStr t \<Rightarrow> s = t | PVar t ns k c \<Rightarrow> s = t | _ \<Rightarrow> False)"
| "py_eq (PList xs) y = (case y of PList ys \<Rightarrow> list_all2 py_eq xs ys | _ \<Rightarrow> False)"
| "py_eq (PDict a) y =
     (case y of
        PDict b \<Rightarrow>
          list_all (\<lambda>k. case map_of a k of
                           None \<Rightarrow> False
                         | Some v \<Rightarrow> (case map_of b k of None \<Rightarrow> False | Some w \<Rightarrow> py_eq v w))
            (map fst a @ map fst b)
      | _ \<Rightarrow> False)"
| "py_eq (PVar s ns k c) y =
     (case y of PStr t \<Rightarrow> s = t | PVar t ns' k' c' \<Rightarrow> s = t | _ \<Rightarrow> False)"
  by pat_completeness auto
termination
  apply (relation "measure (\<lambda>(x, y). size x)")
    apply simp
   apply (auto simp: less_Suc_eq_le size_list_estimation' dest!: size_map_of)
  done

section \<open>The remote collaborator and the console\<close>

text \<open>
  \<open>SSMClient\<close> is the boundary to the remote store: the session's region name, the
  caller's account id and the decrypter are parameters of the model. \<open>get_region\<close> and
  \<open>get_account\<close> memoise what the session answers, so they are the session's answers.
  \<open>re.search\<close> on a user-supplied pattern is a parameter as well (\<open>Inl\<close> when the
  pattern does not compile).
\<close>

record remote =
  region_name :: pyobj
  account_id :: pyobj
  decrypter :: "pyobj \<Rightarrow> pyobj \<Rightarrow> error + pyobj"
  re_search :: "string \<Rightarrow> string \<Rightarrow> error + bool"

text \<open>\<open>input\<close> and \<open>getpass.getpass\<close> both read one line (\<open>echo\<close> only chooses
  between them); the console is the list of lines still to come, and reading past its
  end raises \<open>EOFError\<close>.\<close>

definition input_fn :: "string list \<Rightarrow> error + (string \<times> string list)" where
  "input_fn console = (case console of [] \<Rightarrow> Inl EOFError | l # ls \<Rightarrow> Inr (l, ls))"

section \<open>Input\<close>

record input =
  i_name :: string
  i_type :: pyobj
  i_pattern :: pyobj
  i_description :: pyobj
  i_default :: pyobj
  i_value :: pyobj
  i_encrypted_value :: pyobj
  i_decrypted_value :: pyobj

text \<open>\<open>Input.__init__\<close> (files.py, lines 106-116).\<close>

definition Input_init :: "string \<Rightarrow> pyobj \<Rightarrow> pyobj \<Rightarrow> pyobj \<Rightarrow> pyobj \<Rightarrow> input" where
  "Input_init name type pattern description dflt =
     \<lparr> i_name = name, i_type = (if truthy type then type else PStr ''String''),
       i_pattern = pattern, i_description = description, i_default = dflt,
       i_value = PNone, i_encrypted_value = PNone, i_decrypted_value = PNone \<rparr>"

text \<open>\<open>Input.load\<close> (files.py, lines 39-54): \<open>obj\<close> is the value of \<open>.INPUT\<close>.\<close>

fun Input_load_items :: "(string \<times> input) list \<Rightarrow> (string \<times> pyobj) list \<Rightarrow> error + (string \<times> input) list" where
  "Input_load_items inputs [] = Inr inputs"
| "Input_load_items inputs ((name, data0) # rest) =
     (case (case data0 of PStr t \<Rightarrow> PDict [(''Type'', PStr t)] | _ \<Rightarrow> data0) of
        PDict data \<Rightarrow>
          if py_eq (dict_get data ''Type'') (PStr ''SecureString'') \<and> dict_has data ''Default''
          then Inl (ValueError ''Defaults are not allowed for SecureString'')
          else Input_load_items
                 (dict_set inputs name
                    (Input_init name (dict_get data ''Type'') (dict_get data ''Pattern'')
                       (dict_get data ''Description'') (dict_get data ''Default'')))
                 rest
      | _ \<Rightarrow> Inl AttributeError)"

definition Input_load :: "pyobj \<Rightarrow> error + (string \<times> input) list" where
  "Input_load obj = (case obj of PDict items \<Rightarrow> Input_load_items [] items | _ \<Rightarrow> Inl AttributeError)"

text \<open>\<open>value_is_set\<close>, \<open>set_value\<close>, \<open>get_value\<close> (files.py, lines 118-136).
  \<open>value_is_set\<close> returns \<open>self._value or self._encrypted_value\<close>, which its callers
  test for truth.\<close>

definition value_is_set :: "input \<Rightarrow> pyobj" where
  "value_is_set i = (if truthy (i_value i) then i_value i else i_encrypted_value i)"

definition set_value :: "input \<Rightarrow> pyobj \<Rightarrow> pyobj \<Rightarrow> input" where
  "set_value i v encrypted =
     (if py_eq (i_type i) (PStr ''SecureString'') \<and> encrypted \<noteq> PBool False
      then i\<lparr>i_encrypted_value := v\<rparr>
      else i\<lparr>i_value := v\<rparr>)"

definition get_value :: "remote \<Rightarrow> input \<Rightarrow> pyobj \<Rightarrow> error + (pyobj \<times> input)" where
  "get_value r i key_id =
     (if truthy key_id then
        (if \<not> truthy (i_decrypted_value i) then
           (case decrypter r (if truthy (i_encrypted_value i) then i_encrypted_value i else i_value i)
                   key_id of
              Inl e \<Rightarrow> Inl e
            | Inr d \<Rightarrow> Inr (d, i\<lparr>i_decrypted_value := d\<rparr>))
         else Inr (i_decrypted_value i, i))
      else Inr (i_value i, i))"

text \<open>The prompts (files.py, lines 138-174). \<open>re.search\<close> wants a string pattern and
  raises \<open>TypeError\<close> on any other document value.\<close>

definition pattern_rejects :: "remote \<Rightarrow> pyobj \<Rightarrow> string \<Rightarrow> error + bool" where
  "pattern_rejects r pattern text =
     (if truthy pattern then
        (case pattern of
           PStr p \<Rightarrow> (case re_search r p text of Inl e \<Rightarrow> Inl e | Inr found \<Rightarrow> Inr (\<not> found))
         | _ \<Rightarrow> Inl (TypeError ''not a string pattern''))
      else Inr False)"

definition prompt_for_string :: "remote \<Rightarrow> input \<Rightarrow> string list \<Rightarrow> error + (pyobj \<times> string list)" where
  "prompt_for_string r i console =
     (case input_fn console of
        Inl e \<Rightarrow> Inl e
      | Inr (v, console') \<Rightarrow>
          if v = [] \<and> truthy (i_default i) then Inr (i_default i, console')
          else (case pattern_rejects r (i_pattern i) v of
                  Inl e \<Rightarrow> Inl e
                | Inr True \<Rightarrow> Inl (InputError ''Invalid input'')
                | Inr False \<Rightarrow> Inr (PStr v, console')))"

text \<open>The \<open>while entry:\<close> loop of \<open>_prompt_for_stringlist\<close>: the entries read after
  the first one, the closing blank line included.\<close>

fun read_entries :: "string \<Rightarrow> string list \<Rightarrow> error + (string list \<times> string list)" where
  "read_entries entry [] = (if entry = [] then Inr ([], []) else Inl EOFError)"
| "read_entries entry (l # ls) =
     (if entry = [] then Inr ([], l # ls)
      else (case read_entries l ls of
              Inl e \<Rightarrow> Inl e
            | Inr (vs, console') \<Rightarrow> Inr (l # vs, console')))"

fun join :: "string \<Rightarrow> string list \<Rightarrow> string" where
  "join sep [] = []"
| "join sep [x] = x"
| "join sep (x # y # ys) = x @ sep @ join sep (y # ys)"

definition prompt_for_stringlist :: "remote \<Rightarrow> input \<Rightarrow> string list \<Rightarrow> error + (pyobj \<times> string list)" where
  "prompt_for_stringlist r i console =
     (case input_fn console of
        Inl e \<Rightarrow> Inl e
      | Inr (entry, console1) \<Rightarrow>
          if entry = [] \<and> truthy (i_default i) then Inr (i_default i, console1)
          else if CHR '','' \<in> set entry then Inr (PStr entry, console1)
          else (case read_entries entry console1 of
                  Inl e \<Rightarrow> Inl e
                | Inr (others, console2) \<Rightarrow>
                    (case pattern_rejects r (i_pattern i) (join '','' (entry # others)) of
                       Inl e \<Rightarrow> Inl e
                     | Inr True \<Rightarrow> Inl (InputError ''Invalid input'')
                     | Inr False \<Rightarrow> Inr (PList (map PStr (entry # others)), console2))))"

definition set_value_from_prompt :: "remote \<Rightarrow> input \<Rightarrow> string list \<Rightarrow> error + (input \<times> string list)" where
  "set_value_from_prompt r i console =
     (if py_eq (i_type i) (PStr ''String'') then
        (case prompt_for_string r i console of
           Inl e \<Rightarrow> Inl e | Inr (v, c) \<Rightarrow> Inr (i\<lparr>i_value := v\<rparr>, c))
      else if py_eq (i_type i) (PStr ''SecureString'') then
        (case prompt_for_string r i console of
           Inl e \<Rightarrow> Inl e | Inr (v, c) \<Rightarrow> Inr (i\<lparr>i_decrypted_value := v\<rparr>, c))
      else if py_eq (i_type i) (PStr ''StringList'') then
        (case prompt_for_stringlist r i console of
           Inl e \<Rightarrow> Inl e | Inr (v, c) \<Rightarrow> Inr (i\<lparr>i_value := v\<rparr>, c))
      else Inr (i, console))"

text \<open>
  \<open>Input.get_resolver\<close> (files.py, lines 56-85). What \<open>resolver(name)\<close> returns is
  one of the two resolver classes or an \<open>Input\<close> object of \<open>inputs\<close>; the call may add
  an \<open>Input\<close> to \<open>inputs\<close>, change the one it returns, and read the console.
\<close>

datatype binding = RegionResolver | AccountResolver | UserInput input

definition resolve_input ::
  "remote \<Rightarrow> bool \<Rightarrow> (string \<times> input) list \<Rightarrow> string \<Rightarrow> string list
    \<Rightarrow> error + (binding \<times> (string \<times> input) list \<times> string list)" where
  \<comment> \<open>from \<open>input = inputs[name]\<close> on\<close>
  "resolve_input r prompt inputs name console =
     (case map_of inputs name of
        None \<Rightarrow> Inl KeyError
      | Some i \<Rightarrow>
          if \<not> truthy (value_is_set i) then
            (if prompt then
               (case set_value_from_prompt r i console of
                  Inl e \<Rightarrow> Inl e
                | Inr (i', console') \<Rightarrow> Inr (UserInput i', dict_set inputs name i', console'))
             else Inl (InputError ''Input not given''))
          else Inr (UserInput i, inputs, console))"

definition resolver ::
  "remote \<Rightarrow> bool \<Rightarrow> (string \<times> input) list \<Rightarrow> string \<Rightarrow> string list
    \<Rightarrow> error + (binding \<times> (string \<times> input) list \<times> string list)" where
  "resolver r prompt inputs name console =
     (if \<not> dict_has inputs name then
        (if name = ''Region'' then Inr (RegionResolver, inputs, console)
         else if name = ''Account'' then Inr (AccountResolver, inputs, console)
         else if prompt then
           resolve_input r prompt
             (dict_set inputs name (Input_init name PNone PNone PNone PNone)) name console
         else Inl (InputError ''Input not given''))
      else resolve_input r prompt inputs name console)"


section \<open>VarString\<close>

text \<open>
  A character of the model is a code point below 256, and a string a Python \<open>str\<close> of
  such code points. \<open>is_ascii\<close> holds of a string whose characters are all below 128,
  \<open>ascii_obj\<close> of a value all of whose strings and keys are.
\<close>

definition is_ascii :: "string \<Rightarrow> bool" where
  "is_ascii s = list_all (\<lambda>c. (of_char c :: nat) < 128) s"

fun ascii_obj :: "pyobj \<Rightarrow> bool" where
  "ascii_obj (PStr s) = is_ascii s"
| "ascii_obj (PList xs) = list_all ascii_obj xs"
| "ascii_obj (PDict kvs) = list_all (\<lambda>kv. is_ascii (fst kv) \<and> ascii_obj (snd kv)) kvs"
| "ascii_obj (PVar s ns k c) = (is_ascii s \<and> ascii_obj k)"
| "ascii_obj x = True"

text \<open>
  \<open>\w\<close> in a \<open>str\<close> pattern is the underscore and what \<open>str.isalnum\<close> accepts. Below 128
  these are the ASCII letters and digits. From 128 to 255 they are the letters (170, 181,
  186, 192 to 214, 216 to 246, 248 to 255: all but the multiplication and the division
  sign of the upper rows, with the two ordinal indicators and the micro sign) and the
  numeric characters (the superscripts 178, 179, 185 and the fractions 188, 189, 190).
\<close>

definition is_ascii_word_char :: "char \<Rightarrow> bool" where
  "is_ascii_word_char c =
     (let n = (of_char c :: nat)
      in (48 \<le> n \<and> n \<le> 57) \<or> (65 \<le> n \<and> n \<le> 90) \<or> n = 95 \<or> (97 \<le> n \<and> n \<le> 122))"

definition is_latin1_letter :: "char \<Rightarrow> bool" where
  "is_latin1_letter c =
     (let n = (of_char c :: nat)
      in n = 170 \<or> n = 181 \<or> n = 186 \<or> (192 \<le> n \<and> n \<le> 214) \<or> (216 \<le> n \<and> n \<le> 246)
         \<or> (248 \<le> n \<and> n \<le> 255))"

definition is_latin1_numeric :: "char \<Rightarrow> bool" where
  "is_latin1_numeric c =
     (let n = (of_char c :: nat)
      in n = 178 \<or> n = 179 \<or> n = 185 \<or> (188 \<le> n \<and> n \<le> 190))"

definition is_word_char :: "char \<Rightarrow> bool" where
  "is_word_char c = (is_ascii_word_char c \<or> is_latin1_letter c \<or> is_latin1_numeric c)"

text \<open>
  \<open>_REFERENCE_PATTERN\<close> is \<open>\$\((\w+)\)\<close>. \<open>match_reference s\<close> matches it at the
  start of \<open>s\<close> and gives the name and what follows the match. The run of word
  characters is greedy and a closing parenthesis is no word character, so the match is
  the longest run followed by the parenthesis, or none.
\<close>

definition match_reference :: "string \<Rightarrow> (string \<times> string) option" where
  "match_reference s =
     (if take 2 s = ''$('' then
        (let w = takeWhile is_word_char (drop 2 s);
             rest = dropWhile is_word_char (drop 2 s)
         in if w \<noteq> [] \<and> take 1 rest = '')'' then Some (w, drop 1 rest) else None)
      else None)"

lemma match_reference_shorter:
  "match_reference s = Some (w, rest) \<Longrightarrow> length rest < length s"
proof -
  assume m: "match_reference s = Some (w, rest)"
  then have "rest = drop 1 (dropWhile is_word_char (drop 2 s))" and "take 2 s = ''$(''"
    by (auto simp: match_reference_def Let_def split: if_splits)
  moreover have "length (dropWhile is_word_char (drop 2 s)) \<le> length (drop 2 s)"
    by (rule length_dropWhile_le)
  moreover have "s \<noteq> []" using \<open>take 2 s = ''$(''\<close> by auto
  ultimately show ?thesis by (cases s) auto
qed

text \<open>\<open>_REFERENCE_PATTERN.findall(s)\<close>: the names of the matches, left to right,
  the search going on after each match.\<close>

function findall_references :: "string \<Rightarrow> string list" where
  "findall_references [] = []"
| "findall_references (c # cs) =
     (case match_reference (c # cs) of
        Some (w, rest) \<Rightarrow> w # findall_references rest
      | None \<Rightarrow> findall_references cs)"
  by pat_completeness auto
termination
  by (relation "measure length") (auto dest: match_reference_shorter)

text \<open>\<open>VarString.single_reference\<close> (parameters.py, lines 228-235).\<close>

definition single_reference :: "pyobj \<Rightarrow> error + string" where
  "single_reference obj =
     (case obj of
        PStr s \<Rightarrow>
          (case match_reference s of
             Some (w, []) \<Rightarrow> Inr s
           | _ \<Rightarrow>
              if s \<noteq> [] \<and> list_all is_word_char s then Inr (''$('' @ s @ '')'')
              else Inl (ValueError ''is not a valid single reference''))
      | _ \<Rightarrow> Inl (TypeError ''expected string''))"

text \<open>\<open>VarString.__init__\<close> and \<open>VarString.load\<close> (parameters.py, lines 243-263).
  The class-wide set \<open>NAMES\<close>, to which \<open>__init__\<close> adds the names, is read by
  \<open>VarString.resolve\<close> only and is not part of the object.\<close>

definition VarString_init :: "string \<Rightarrow> pyobj \<Rightarrow> pyobj" where
  "VarString_init s key_id =
     (let names = findall_references s
      in PVar s names key_id (if names \<noteq> [] then None else Some s))"

definition VarString_load :: "pyobj \<Rightarrow> pyobj \<Rightarrow> pyobj" where
  "VarString_load obj key_id = (case obj of PStr s \<Rightarrow> VarString_init s key_id | _ \<Rightarrow> obj)"

subsection \<open>The replacement template of \<open>re.sub\<close>\<close>

text \<open>
  \<open>pattern.sub(var_value, value)\<close> gives \<open>re\<close> the variable's value as a replacement
  \<^emph>\<open>template\<close>: \<open>re\<close> processes the backslash escapes in it before it replaces.
  The pattern is the escaped text \<open>$(name)\<close>, which has no group. The model follows
  \<open>parse_template\<close> of CPython 3.12: \<open>template_escape m cs\<close> reads one escape, \<open>cs\<close>
  being what follows the backslash and \<open>m\<close> the matched text, and gives the text the
  escape stands for and the number of characters it took after its first one.
\<close>

definition is_digit :: "char \<Rightarrow> bool" where
  "is_digit c = (let n = (of_char c :: nat) in 48 \<le> n \<and> n \<le> 57)"

definition is_octdigit :: "char \<Rightarrow> bool" where
  "is_octdigit c = (let n = (of_char c :: nat) in 48 \<le> n \<and> n \<le> 55)"

definition is_ascii_letter :: "char \<Rightarrow> bool" where
  "is_ascii_letter c = (let n = (of_char c :: nat) in (65 \<le> n \<and> n \<le> 90) \<or> (97 \<le> n \<and> n \<le> 122))"

definition digit_val :: "char \<Rightarrow> nat" where
  "digit_val c = of_char c - 48"

definition int_of_digits :: "nat \<Rightarrow> string \<Rightarrow> nat" where
  "int_of_digits base ds = foldl (\<lambda>acc d. acc * base + digit_val d) 0 ds"

definition ESCAPES :: "(char \<times> char) list" where
  "ESCAPES = [(CHR ''a'', char_of (7::nat)), (CHR ''b'', char_of (8::nat)),
              (CHR ''f'', char_of (12::nat)), (CHR ''n'', char_of (10::nat)),
              (CHR ''r'', char_of (13::nat)), (CHR ''t'', char_of (9::nat)),
              (CHR ''v'', char_of (11::nat)), (CHR 0x5C, CHR 0x5C)]"

text \<open>\<open>str.isidentifier\<close>: a letter or the underscore, then letters, digits,
  underscores and the middle dot (183).\<close>

definition is_identifier :: "string \<Rightarrow> bool" where
  "is_identifier s =
     (s \<noteq> []
      \<and> list_all (\<lambda>c. is_ascii_word_char c \<or> is_latin1_letter c \<or> (of_char c :: nat) = 183) s
      \<and> \<not> is_digit (hd s) \<and> (of_char (hd s) :: nat) \<noteq> 183)"

definition template_escape :: "string \<Rightarrow> string \<Rightarrow> error + (string \<times> nat)" where
  "template_escape m cs =
     (case cs of
        [] \<Rightarrow> Inl ReError
      | c # rest \<Rightarrow>
          if c = CHR ''g'' then
            (if take 1 rest \<noteq> ''<'' then Inl ReError
             else
               let name = takeWhile (\<lambda>x. x \<noteq> CHR ''>'') (drop 1 rest)
               in if length name = length (drop 1 rest) then Inl ReError
                  else if name = [] then Inl ReError
                  else if list_all is_digit name then
                    (if int_of_digits 10 name = 0 then Inr (m, length name + 2) else Inl ReError)
                  else if is_identifier name then Inl IndexError
                  else Inl ReError)
          else if c = CHR ''0'' then
            (let ds = (if list_all is_octdigit (take 1 rest) \<and> rest \<noteq> []
                       then (if list_all is_octdigit (take 2 rest) \<and> length rest \<ge> 2
                             then take 2 rest else take 1 rest)
                       else [])
             in Inr ([char_of (int_of_digits 8 ds mod 256)], length ds))
          else if is_digit c then
            (if length rest \<ge> 2 \<and> is_octdigit c \<and> list_all is_octdigit (take 2 rest) then
               (let v = int_of_digits 8 (c # take 2 rest)
                in if v > 255 then Inl ReError else Inr ([char_of v], 2))
             else Inl ReError)
          else
            (case map_of ESCAPES c of
               Some e \<Rightarrow> Inr ([e], 0)
             | None \<Rightarrow> if is_ascii_letter c then Inl ReError else Inr ([CHR 0x5C, c], 0)))"

function expand_template :: "string \<Rightarrow> string \<Rightarrow> error + string" where
  "expand_template m [] = Inr []"
| "expand_template m (c # cs) =
     (if c = CHR 0x5C then
        (case template_escape m cs of
           Inl e \<Rightarrow> Inl e
         | Inr (lit, k) \<Rightarrow>
            (case expand_template m (drop k (tl cs)) of
               Inl e \<Rightarrow> Inl e
             | Inr out \<Rightarrow> Inr (lit @ out)))
      else
        (case expand_template m cs of
           Inl e \<Rightarrow> Inl e
         | Inr out \<Rightarrow> Inr (c # out)))"
  by pat_completeness auto
termination
  by (relation "measure (\<lambda>(m, t). length t)") auto

text \<open>Every match of the text \<open>pat\<close> in \<open>s\<close>, left to right and not overlapping, replaced
  by \<open>lit\<close>.\<close>

function replace_all :: "string \<Rightarrow> string \<Rightarrow> string \<Rightarrow> string" where
  "replace_all pat lit [] = []"
| "replace_all pat lit (c # cs) =
     (if pat \<noteq> [] \<and> take (length pat) (c # cs) = pat
      then lit @ replace_all pat lit (drop (length pat) (c # cs))
      else c # replace_all pat lit cs)"
  by pat_completeness auto
termination
  by (relation "measure (\<lambda>(pat, lit, s). length s)") (auto simp: neq_Nil_conv)

text \<open>\<open>get_reference_pattern(name).sub(repl, s)\<close>: the template is parsed whether or
  not the pattern occurs in \<open>s\<close>.\<close>

definition sub_reference :: "string \<Rightarrow> string \<Rightarrow> string \<Rightarrow> error + string" where
  "sub_reference name repl s =
     (let pat = ''$('' @ name @ '')''
      in case expand_template pat repl of
           Inl e \<Rightarrow> Inl e
         | Inr lit \<Rightarrow> Inr (replace_all pat lit s))"

subsection \<open>\<open>VarString.value\<close>\<close>

text \<open>
  \<open>_VAR_VALUES\<close> maps a name to what the resolver returned for it; \<open>get_value\<close> of an
  \<open>Input\<close> may store the decrypted value in it, so the dict is passed through.
\<close>

definition binding_get_value :: "remote \<Rightarrow> binding \<Rightarrow> pyobj \<Rightarrow> error + (pyobj \<times> binding)" where
  "binding_get_value r b key_id =
     (case b of
        RegionResolver \<Rightarrow> Inr (region_name r, RegionResolver)
      | AccountResolver \<Rightarrow> Inr (account_id r, AccountResolver)
      | UserInput i \<Rightarrow>
          (case get_value r i key_id of Inl e \<Rightarrow> Inl e | Inr (v, i') \<Rightarrow> Inr (v, UserInput i')))"

text \<open>
  \<open>VarString.value\<close> (parameters.py, lines 265-275) on the object \<open>vs\<close>: the string, the
  object with its cache filled, and \<open>_VAR_VALUES\<close> afterwards. \<open>substitute_names\<close> is its
  \<open>for name in self.names\<close> loop; each round evaluates \<open>self.dump(self._key_id)\<close>, the
  value of the key-id when that is a \<open>VarString\<close> itself. (The key-id object keeps its
  own cache in Python; the model evaluates it again, which gives the same string.)
\<close>

function (sequential) VarString_value ::
    "remote \<Rightarrow> (string \<times> binding) list \<Rightarrow> pyobj \<Rightarrow> error + (string \<times> pyobj \<times> (string \<times> binding) list)"
  and substitute_names ::
    "remote \<Rightarrow> pyobj \<Rightarrow> string list \<Rightarrow> string \<Rightarrow> (string \<times> binding) list
      \<Rightarrow> error + (string \<times> (string \<times> binding) list)" where
  "VarString_value r env (PVar s names k cache) =
     (case cache of
        Some (c # cs) \<Rightarrow> Inr (c # cs, PVar s names k cache, env)
      | _ \<Rightarrow>
         (case substitute_names r k names s env of
            Inl e \<Rightarrow> Inl e
          | Inr (v, env') \<Rightarrow> Inr (v, PVar s names k (Some v), env')))"
| "VarString_value r env _ = Inl AttributeError"
| "substitute_names r k [] val env = Inr (val, env)"
| "substitute_names r k (name # names) val env =
     (case (case k of
              PVar s' ns' k' c' \<Rightarrow>
                (case VarString_value r env k of
                   Inl e \<Rightarrow> Inl e
                 | Inr (v, k1, env1) \<Rightarrow> Inr (PStr v, env1))
            | _ \<Rightarrow> Inr (k, env)) of
        Inl e \<Rightarrow> Inl e
      | Inr (key_id, env1) \<Rightarrow>
          (case map_of env1 name of
             None \<Rightarrow> Inl KeyError
           | Some b \<Rightarrow>
               (case binding_get_value r b key_id of
                  Inl e \<Rightarrow> Inl e
                | Inr (var_value, b') \<Rightarrow>
                    (case var_value of
                       PStr repl \<Rightarrow>
                         (case sub_reference name repl val of
                            Inl e \<Rightarrow> Inl e
                          | Inr val' \<Rightarrow> substitute_names r k names val' (dict_set env1 name b'))
                     | _ \<Rightarrow> Inl (TypeError ''expected str instance'')))))"
  by pat_completeness auto
termination
  by (relation "inv_image (less_than <*lex*> less_than)
        (\<lambda>x. case x of
                Inl (r, env, vs) \<Rightarrow> (size vs, 0)
              | Inr (r, k, names, val, env) \<Rightarrow> (size k, Suc (length names)))")
     auto

text \<open>\<open>VarString.dump\<close> (parameters.py, lines 248-253).\<close>

definition VarString_dump ::
  "remote \<Rightarrow> (string \<times> binding) list \<Rightarrow> pyobj \<Rightarrow> error + (pyobj \<times> (string \<times> binding) list)" where
  "VarString_dump r env obj =
     (case obj of
        PVar s names k cache \<Rightarrow>
          (case VarString_value r env obj of
             Inl e \<Rightarrow> Inl e
           | Inr (v, obj', env') \<Rightarrow> Inr (PStr v, env'))
      | _ \<Rightarrow> Inr (obj, env))"

section \<open>A remote collaborator for the examples\<close>

text \<open>A session in \<open>eu-west-1\<close> whose decrypter hands the ciphertext back and whose
  \<open>re.search\<close> always finds a match; the concrete runs below use it.\<close>

definition demo_remote :: remote where
  "demo_remote = \<lparr> region_name = PStr ''eu-west-1'', account_id = PStr ''123456789012'',
      decrypter = (\<lambda>ciphertext key_id. Inr ciphertext), re_search = (\<lambda>pattern text. Inr True) \<rparr>"

section \<open>Loading, reading and dumping an SSMParameter\<close>

text \<open>
  \<open>SSMParameter.load\<close> (parameters.py, lines 301-353). \<open>obj\<close> is a dict; \<open>obj['Name']\<close> and
  \<open>obj['Value']\<close> raise \<open>KeyError\<close> on a missing key. \<open>infer_type\<close> is the \<open>if not type:\<close>
  block, line 315 included.
\<close>

definition dict_item :: "(string \<times> pyobj) list \<Rightarrow> string \<Rightarrow> error + pyobj" where
  "dict_item d k = (case map_of d k of None \<Rightarrow> Inl KeyError | Some v \<Rightarrow> Inr v)"

definition is_str :: "pyobj \<Rightarrow> bool" where
  "is_str x = (case x of PStr s \<Rightarrow> True | _ \<Rightarrow> False)"

definition infer_type :: "(string \<times> pyobj) list \<Rightarrow> error + pyobj" where
  "infer_type obj =
     (case (if dict_has obj ''KeyId'' then Inr (PStr ''SecureString'')
            else (case dict_item obj ''Value'' of
                    Inl e \<Rightarrow> Inl e
                  | Inr v \<Rightarrow> if \<not> is_str v then Inr (PStr ''StringList'') else Inr (PStr ''String''))) of
        Inl e \<Rightarrow> Inl e
      | Inr type \<Rightarrow> Inr (if dict_has obj ''KeyId'' then PStr ''SecureString'' else PStr ''String''))"

text \<open>
  \<open>load_varstring\<close> is \<open>VarString.load\<close>, or \<open>lambda o, k=None: o\<close> when
  \<open>vars_in_name_only\<close> is set. \<open>load_varstring o\<close> is the call with one argument.
  Lines 324 and 326 call it with the keyword \<open>key_id=key_id\<close>, which the lambda does not
  take: with \<open>vars_in_name_only\<close> set that call raises \<open>TypeError\<close>, after its arguments
  have been evaluated.
\<close>

definition load_varstring :: "bool \<Rightarrow> pyobj \<Rightarrow> pyobj" where
  "load_varstring vars_in_name_only obj =
     (if vars_in_name_only then obj else VarString_load obj PNone)"

definition load_varstring_key_id :: "bool \<Rightarrow> pyobj \<Rightarrow> pyobj \<Rightarrow> error + pyobj" where
  "load_varstring_key_id vars_in_name_only obj key_id =
     (if vars_in_name_only then Inl (TypeError ''got an unexpected keyword argument key_id'')
      else Inr (VarString_load obj key_id))"

definition load_value :: "bool \<Rightarrow> (string \<times> pyobj) list \<Rightarrow> pyobj \<Rightarrow> pyobj \<Rightarrow> error + pyobj" where
  "load_value vars_in_name_only obj type key_id =
     (if py_eq_str type ''SecureString'' then
        (if \<not> truthy key_id then Inl (ValueError ''SecureString requires KeyId'')
         else if dict_has obj ''EncryptedValue''
           then load_varstring_key_id vars_in_name_only (dict_get obj ''EncryptedValue'') key_id
         else if dict_has obj ''Input''
           then (case single_reference (dict_get obj ''Input'') of
                   Inl e \<Rightarrow> Inl e
                 | Inr ref \<Rightarrow> load_varstring_key_id vars_in_name_only (PStr ref) key_id)
         else if dict_has obj ''Value''
           then Inl (ValueError ''Value cannot be used with SecureString'')
         else Inr PNone)
      else
        (case dict_get obj ''Value'' of
           PList xs \<Rightarrow> Inr (PList (map (\<lambda>s. load_varstring vars_in_name_only s) xs))
         | v \<Rightarrow> Inr (load_varstring vars_in_name_only v)))"

definition SSMParameter_load :: "(string \<times> pyobj) list \<Rightarrow> bool \<Rightarrow> error + ssm_parameter" where
  "SSMParameter_load obj vars_in_name_only =
     (case dict_item obj ''Name'' of
        Inl e \<Rightarrow> Inl e
      | Inr n \<Rightarrow>
         (case (if \<not> truthy (dict_get obj ''Type'') then infer_type obj
                else Inr (dict_get obj ''Type'')) of
            Inl e \<Rightarrow> Inl e
          | Inr type \<Rightarrow>
             (let key_id = load_varstring vars_in_name_only (dict_get obj ''KeyId'')
              in case load_value vars_in_name_only obj type key_id of
                   Inl e \<Rightarrow> Inl e
                 | Inr val \<Rightarrow>
                    (case SSMParameter_init (VarString_load n PNone) type val
                            (load_varstring vars_in_name_only (dict_get obj ''AllowedPattern''))
                            (dict_get obj ''Description'')
                            key_id
                            (dict_get obj ''Overwrite'')
                            (load_varstring vars_in_name_only
                               (if dict_has obj ''Disable'' then dict_get obj ''Disable''
                                else dict_get obj ''Disabled'')) of
                       Inl e \<Rightarrow> Inl e
                     | Inr p \<Rightarrow>
                        Inr (p\<lparr> p_version := dict_get obj ''Version'',
                                p_last_modified_date := dict_get obj ''LastModifiedDate'',
                                p_last_modified_user := dict_get obj ''LastModifiedUser'' \<rparr>)))))"

text \<open>
  The properties (parameters.py, lines 413-463). Each takes \<open>_VAR_VALUES\<close> and gives it
  back, since reading a \<open>VarString\<close> may decrypt an Input. \<open>OVERWRITE_DEFAULT\<close> is a
  class attribute the command line sets; it is a parameter here.
\<close>

type_synonym var_values = "(string \<times> binding) list"

definition SSMParameter_name :: "remote \<Rightarrow> var_values \<Rightarrow> ssm_parameter \<Rightarrow> error + (pyobj \<times> var_values)" where
  "SSMParameter_name r env p = VarString_dump r env (p_name p)"

definition SSMParameter_disable :: "remote \<Rightarrow> var_values \<Rightarrow> ssm_parameter \<Rightarrow> error + (bool \<times> var_values)" where
  "SSMParameter_disable r env p =
     (if p_disable p = PNone then Inr (False, env)
      else (case VarString_dump r env (p_disable p) of
              Inl e \<Rightarrow> Inl e
            | Inr (d, env') \<Rightarrow> Inr (truthy d, env')))"

text \<open>\<open>VarString.dump(v) for v in self._value\<close>: every element is dumped before
  \<open>','.join\<close> looks at any of them.\<close>

fun dump_all :: "remote \<Rightarrow> var_values \<Rightarrow> pyobj list \<Rightarrow> error + (pyobj list \<times> var_values)" where
  "dump_all r env [] = Inr ([], env)"
| "dump_all r env (x # xs) =
     (case VarString_dump r env x of
        Inl e \<Rightarrow> Inl e
      | Inr (v, env1) \<Rightarrow>
         (case dump_all r env1 xs of
            Inl e \<Rightarrow> Inl e
          | Inr (vs, env2) \<Rightarrow> Inr (v # vs, env2)))"

fun str_of :: "pyobj \<Rightarrow> string" where
  "str_of (PStr s) = s"
| "str_of _ = []"

definition join_strs :: "pyobj list \<Rightarrow> error + string" where
  "join_strs vs =
     (if list_all is_str vs then Inr (join '','' (map str_of vs))
      else Inl (TypeError ''sequence item: expected str instance''))"

definition SSMParameter_value :: "remote \<Rightarrow> var_values \<Rightarrow> ssm_parameter \<Rightarrow> error + (pyobj \<times> var_values)" where
  "SSMParameter_value r env p =
     (if p_value p = PNone then
        (case SSMParameter_disable r env p of
           Inl e \<Rightarrow> Inl e
         | Inr (d, env1) \<Rightarrow>
            if d then Inr (p_value p, env1)
            else (case SSMParameter_name r env1 p of
                    Inl e \<Rightarrow> Inl e
                  | Inr (n, env2) \<Rightarrow> Inl (ValueError ''Value missing for parameter'')))
      else
        (case VarString_dump r env (p_value p) of
           Inl e \<Rightarrow> Inl e
         | Inr (v, env1) \<Rightarrow>
            if is_str v then Inr (v, env1)
            else
              (case p_value p of
                 PList xs \<Rightarrow>
                   (case dump_all r env1 xs of
                      Inl e \<Rightarrow> Inl e
                    | Inr (vs, env2) \<Rightarrow>
                       (case join_strs vs of Inl e \<Rightarrow> Inl e | Inr s \<Rightarrow> Inr (PStr s, env2)))
               | PDict kvs \<Rightarrow> Inr (PStr (join '','' (map fst kvs)), env1)
               | _ \<Rightarrow> Inl (TypeError ''object is not iterable''))))"

definition SSMParameter_allowed_pattern :: "remote \<Rightarrow> var_values \<Rightarrow> ssm_parameter \<Rightarrow> error + (pyobj \<times> var_values)" where
  "SSMParameter_allowed_pattern r env p = VarString_dump r env (p_allowed_pattern p)"

definition SSMParameter_key_id :: "remote \<Rightarrow> var_values \<Rightarrow> ssm_parameter \<Rightarrow> error + (pyobj \<times> var_values)" where
  "SSMParameter_key_id r env p = VarString_dump r env (p_key_id p)"

definition SSMParameter_overwrite :: "bool \<Rightarrow> ssm_parameter \<Rightarrow> bool" where
  "SSMParameter_overwrite OVERWRITE_DEFAULT p =
     (if p_overwrite p \<noteq> PNone then truthy (p_overwrite p) else OVERWRITE_DEFAULT)"

text \<open>\<open>if self.x: data['X'] = self.x\<close>: the property is read for the test and, when
  true, once more for the entry.\<close>

definition add_if_set ::
  "(var_values \<Rightarrow> error + (pyobj \<times> var_values)) \<Rightarrow> string \<Rightarrow> (string \<times> pyobj) list \<Rightarrow> var_values
    \<Rightarrow> error + ((string \<times> pyobj) list \<times> var_values)" where
  "add_if_set prop k data env =
     (case prop env of
        Inl e \<Rightarrow> Inl e
      | Inr (v, env1) \<Rightarrow>
         if truthy v then
           (case prop env1 of
              Inl e \<Rightarrow> Inl e
            | Inr (v', env2) \<Rightarrow> Inr (dict_set data k v', env2))
         else Inr (data, env1))"

text \<open>\<open>SSMParameter.dump\<close> (parameters.py, lines 355-371).\<close>

definition SSMParameter_dump ::
  "remote \<Rightarrow> var_values \<Rightarrow> ssm_parameter \<Rightarrow> error + ((string \<times> pyobj) list \<times> var_values)" where
  "SSMParameter_dump r env p =
     (case SSMParameter_name r env p of
        Inl e \<Rightarrow> Inl e
      | Inr (n, env1) \<Rightarrow>
         (case SSMParameter_value r env1 p of
            Inl e \<Rightarrow> Inl e
          | Inr (v, env2) \<Rightarrow>
             (case add_if_set (\<lambda>env. SSMParameter_allowed_pattern r env p) ''AllowedPattern''
                     [(''Name'', n), (''Type'', p_type p), (''Value'', v)] env2 of
                Inl e \<Rightarrow> Inl e
              | Inr (data3, env3) \<Rightarrow>
                 (case add_if_set (\<lambda>env. Inr (p_description p, env)) ''Description'' data3 env3 of
                    Inl e \<Rightarrow> Inl e
                  | Inr (data4, env4) \<Rightarrow>
                     add_if_set (\<lambda>env. SSMParameter_key_id r env p) ''KeyId'' data4 env4))))"

section \<open>Writing to the remote store\<close>

text \<open>
  \<open>_batch\<close> (parameters.py, lines 495-498): the slices \<open>iterable[ndx:min(ndx + n, l)]\<close>
  for \<open>ndx\<close> in \<open>range(0, l, n)\<close>; \<open>range\<close> raises \<open>ValueError\<close> on a zero step.
\<close>

function slices :: "'a list \<Rightarrow> nat \<Rightarrow> 'a list list" where
  "slices xs n = (if xs = [] \<or> n = 0 then [] else take n xs # slices (drop n xs) n)"
  by pat_completeness auto
termination
  by (relation "measure (\<lambda>(xs, n). length xs)") auto

definition batch :: "'a list \<Rightarrow> nat \<Rightarrow> error + 'a list list" where
  "batch iterable n =
     (if n = 0 then Inl (ValueError ''range() arg 3 must not be zero'')
      else Inr (slices iterable n))"

text \<open>
  \<open>SSMClient.batch_put\<close> (parameters.py, lines 65-94). The remote store is the list of
  \<open>put_parameter\<close> requests it receives, each the \<open>kwargs\<close> dict of the call, in the order
  of the calls; what the store answers is not modelled. \<open>put_request\<close> is the body of the
  inner loop for a parameter that is not disabled.
\<close>

definition put_request ::
  "remote \<Rightarrow> bool \<Rightarrow> var_values \<Rightarrow> ssm_parameter \<Rightarrow> error + ((string \<times> pyobj) list \<times> var_values)" where
  "put_request r OVERWRITE_DEFAULT env p =
     (case SSMParameter_name r env p of
        Inl e \<Rightarrow> Inl e
      | Inr (n, env1) \<Rightarrow>
         (case SSMParameter_value r env1 p of
            Inl e \<Rightarrow> Inl e
          | Inr (v, env2) \<Rightarrow>
             (case add_if_set (\<lambda>env. SSMParameter_allowed_pattern r env p) ''AllowedPattern''
                     [(''Name'', n), (''Type'', p_type p), (''Value'', v)] env2 of
                Inl e \<Rightarrow> Inl e
              | Inr (kw3, env3) \<Rightarrow>
                 (case add_if_set (\<lambda>env. Inr (p_description p, env)) ''Description'' kw3 env3 of
                    Inl e \<Rightarrow> Inl e
                  | Inr (kw4, env4) \<Rightarrow>
                     (case add_if_set (\<lambda>env. SSMParameter_key_id r env p) ''KeyId'' kw4 env4 of
                        Inl e \<Rightarrow> Inl e
                      | Inr (kw5, env5) \<Rightarrow>
                         add_if_set (\<lambda>env. Inr (PBool (SSMParameter_overwrite OVERWRITE_DEFAULT p), env))
                           ''Overwrite'' kw5 env5)))))"

text \<open>\<open>for parameter in args\<close>: the requests sent are added to \<open>sent\<close>.\<close>

fun put_each ::
  "remote \<Rightarrow> bool \<Rightarrow> ssm_parameter list \<Rightarrow> (string \<times> pyobj) list list \<Rightarrow> var_values
    \<Rightarrow> error + ((string \<times> pyobj) list list \<times> var_values)" where
  "put_each r od [] sent env = Inr (sent, env)"
| "put_each r od (p # ps) sent env =
     (case SSMParameter_disable r env p of
        Inl e \<Rightarrow> Inl e
      | Inr (d, env1) \<Rightarrow>
         if d then put_each r od ps sent env1
         else (case put_request r od env1 p of
                 Inl e \<Rightarrow> Inl e
               | Inr (kwargs, env2) \<Rightarrow> put_each r od ps (sent @ [kwargs]) env2))"

text \<open>\<open>for parameters in _batch(args, 10)\<close>: the body loops over \<open>args\<close>, not over
  \<open>parameters\<close>.\<close>

fun put_batches ::
  "remote \<Rightarrow> bool \<Rightarrow> ssm_parameter list list \<Rightarrow> ssm_parameter list \<Rightarrow> (string \<times> pyobj) list list
    \<Rightarrow> var_values \<Rightarrow> error + ((string \<times> pyobj) list list \<times> var_values)" where
  "put_batches r od [] args sent env = Inr (sent, env)"
| "put_batches r od (parameters # rest) args sent env =
     (case put_each r od args sent env of
        Inl e \<Rightarrow> Inl e
      | Inr (sent', env') \<Rightarrow> put_batches r od rest args sent' env')"

definition batch_put ::
  "remote \<Rightarrow> bool \<Rightarrow> var_values \<Rightarrow> ssm_parameter list
    \<Rightarrow> error + ((string \<times> pyobj) list list \<times> var_values)" where
  "batch_put r OVERWRITE_DEFAULT env args =
     (case batch args 10 of
        Inl e \<Rightarrow> Inl e
      | Inr batches \<Rightarrow> put_batches r OVERWRITE_DEFAULT batches args [] env)"

section \<open>Objects for the examples\<close>

text \<open>An Input of type \<open>String\<close> holding \<open>v\<close>, as \<open>--input n v\<close> on the command line
  makes it; a \<open>String\<close> parameter with the literal value \<open>v\<close>; a \<open>String\<close> parameter
  with no value and the given \<open>Disable\<close> field; eleven parameter names.\<close>

definition demo_input :: "string \<Rightarrow> string \<Rightarrow> binding" where
  "demo_input n v =
     UserInput (set_value (Input_init n (PStr ''String'') PNone PNone PNone) (PStr v) PNone)"

definition demo_parameter :: "string \<Rightarrow> ssm_parameter" where
  "demo_parameter n =
     \<lparr> p_name = VarString_init n PNone, p_type = PStr ''String'',
       p_value = VarString_init ''v'' PNone, p_allowed_pattern = PNone, p_description = PNone,
       p_key_id = PNone, p_overwrite = PNone, p_disable = PNone, p_version = PNone,
       p_last_modified_date = PNone, p_last_modified_user = PNone \<rparr>"

definition unset_parameter :: "string \<Rightarrow> pyobj \<Rightarrow> ssm_parameter" where
  "unset_parameter n d =
     \<lparr> p_name = VarString_init n PNone, p_type = PStr ''String'', p_value = PNone,
       p_allowed_pattern = PNone, p_description = PNone, p_key_id = PNone, p_overwrite = PNone,
       p_disable = d, p_version = PNone, p_last_modified_date = PNone,
       p_last_modified_user = PNone \<rparr>"

definition eleven_names :: "string list" where
  "eleven_names = [''/p/a'', ''/p/b'', ''/p/c'', ''/p/d'', ''/p/e'', ''/p/f'', ''/p/g'',
                   ''/p/h'', ''/p/i'', ''/p/j'', ''/p/k'']"

section \<open>Parameter files\<close>

text \<open>
  \<open>dict.update(other)\<close> as \<open>parse_parameter_file\<close> calls it on \<open>param_data\<close>: a dict is
  merged key by key; a list is read as a sequence of key-value pairs (a string, a list
  or a dict of length two; for a dict the pair is its two keys); the empty string updates
  nothing; everything else raises. A pair whose key is \<open>None\<close>, a boolean or an integer
  adds an entry that no string key can reach: it is left out of the string-keyed dict.
\<close>

definition update_pair :: "pyobj \<Rightarrow> error + (pyobj \<times> pyobj)" where
  "update_pair x =
     (case x of
        PStr s \<Rightarrow> (case s of [a, b] \<Rightarrow> Inr (PStr [a], PStr [b])
                   | _ \<Rightarrow> Inl (ValueError ''dictionary update sequence element has the wrong length''))
      | PList xs \<Rightarrow> (case xs of [k, v] \<Rightarrow> Inr (k, v)
                     | _ \<Rightarrow> Inl (ValueError ''dictionary update sequence element has the wrong length''))
      | PDict kvs \<Rightarrow> (case kvs of [(k1, v1), (k2, v2)] \<Rightarrow> Inr (PStr k1, PStr k2)
                      | _ \<Rightarrow> Inl (ValueError ''dictionary update sequence element has the wrong length''))
      | _ \<Rightarrow> Inl (TypeError ''cannot convert dictionary update sequence element to a sequence''))"

fun update_pairs :: "(string \<times> pyobj) list \<Rightarrow> pyobj list \<Rightarrow> error + (string \<times> pyobj) list" where
  "update_pairs d [] = Inr d"
| "update_pairs d (x # xs) =
     (case update_pair x of
        Inl e \<Rightarrow> Inl e
      | Inr (k, v) \<Rightarrow>
         (case k of
            PStr key \<Rightarrow> update_pairs (dict_set d key v) xs
          | PVar s ns kid c \<Rightarrow> update_pairs (dict_set d s v) xs
          | PList ys \<Rightarrow> Inl (TypeError ''unhashable type'')
          | PDict kvs \<Rightarrow> Inl (TypeError ''unhashable type'')
          | _ \<Rightarrow> update_pairs d xs))"

definition dict_update :: "(string \<times> pyobj) list \<Rightarrow> pyobj \<Rightarrow> error + (string \<times> pyobj) list" where
  "dict_update d other =
     (case other of
        PDict kvs \<Rightarrow> Inr (foldl (\<lambda>acc (k, v). dict_set acc k v) d kvs)
      | PList xs \<Rightarrow> update_pairs d xs
      | PStr s \<Rightarrow> if s = [] then Inr d
                  else Inl (ValueError ''dictionary update sequence element has the wrong length'')
      | _ \<Rightarrow> Inl (TypeError ''object is not iterable''))"

text \<open>\<open>parse_parameter_file\<close> (files.py, lines 196-230). \<open>obj\<close> is the decoded document,
  a dict; \<open>parse_entries\<close> is the loop over \<open>obj.items()\<close>.\<close>

record parameter_file_data =
  pf_inputs :: "(string \<times> input) list"
  pf_parameters :: "(string \<times> ssm_parameter) list"
  pf_flush :: pyobj

definition startswith_dot :: "string \<Rightarrow> bool" where
  "startswith_dot n = (take 1 n = ''.'')"

definition param_data_of :: "pyobj \<Rightarrow> string \<Rightarrow> pyobj \<Rightarrow> error + (string \<times> pyobj) list" where
  "param_data_of common_data n data =
     (let data' = (case data of
                     PStr s \<Rightarrow> PDict [(''Type'', PStr ''String''), (''Value'', data)]
                   | PList xs \<Rightarrow> PDict [(''Type'', PStr ''StringList''), (''Value'', data)]
                   | _ \<Rightarrow> data)
      in case dict_update [(''Name'', PStr n)] common_data of
           Inl e \<Rightarrow> Inl e
         | Inr param_data \<Rightarrow> dict_update param_data data')"

fun parse_entries ::
  "pyobj \<Rightarrow> bool \<Rightarrow> (string \<times> ssm_parameter) list \<Rightarrow> (string \<times> pyobj) list
    \<Rightarrow> error + (string \<times> ssm_parameter) list" where
  "parse_entries common_data vars_in_name_only parameters [] = Inr parameters"
| "parse_entries common_data vars_in_name_only parameters ((n, data) # rest) =
     (if startswith_dot n then parse_entries common_data vars_in_name_only parameters rest
      else
        (case param_data_of common_data n data of
           Inl e \<Rightarrow> Inl e
         | Inr param_data \<Rightarrow>
            (case SSMParameter_load param_data vars_in_name_only of
               Inl e \<Rightarrow> Inl e
             | Inr p \<Rightarrow>
                parse_entries common_data vars_in_name_only (dict_set parameters n p) rest)))"

definition dict_get_or :: "(string \<times> pyobj) list \<Rightarrow> string \<Rightarrow> pyobj \<Rightarrow> pyobj" where
  \<comment> \<open>\<open>d.get(k, default)\<close>\<close>
  "dict_get_or d k dflt = (case map_of d k of None \<Rightarrow> dflt | Some v \<Rightarrow> v)"

definition parse_parameter_file :: "(string \<times> pyobj) list \<Rightarrow> bool \<Rightarrow> error + parameter_file_data" where
  "parse_parameter_file obj vars_in_name_only =
     (case Input_load (dict_get_or obj ''.INPUT'' (PDict [])) of
        Inl e \<Rightarrow> Inl e
      | Inr inputs \<Rightarrow>
         (let common_data = dict_get_or obj ''.COMMON'' (PDict []);
              flush0 = dict_get_or obj ''.FLUSH'' (PList []);
              flush = (if is_str flush0 then PList [flush0] else flush0)
          in case parse_entries common_data vars_in_name_only [] obj of
               Inl e \<Rightarrow> Inl e
             | Inr parameters \<Rightarrow>
                Inr \<lparr> pf_inputs = inputs, pf_parameters = parameters, pf_flush = flush \<rparr>))"

text \<open>
  \<open>compile_parameter_file\<close> (files.py, lines 232-245). The keys of the dict it builds are
  \<open>.FLUSH\<close> and what \<open>dump\<close> gives as \<open>Name\<close>; a key must be hashable, and keys that are
  equal in Python are one key.
\<close>

definition hashable :: "pyobj \<Rightarrow> bool" where
  "hashable x = (case x of PList xs \<Rightarrow> False | PDict kvs \<Rightarrow> False | _ \<Rightarrow> True)"

fun pydict_set :: "(pyobj \<times> pyobj) list \<Rightarrow> pyobj \<Rightarrow> pyobj \<Rightarrow> (pyobj \<times> pyobj) list" where
  "pydict_set [] k v = [(k, v)]"
| "pydict_set ((k', v') # d) k v =
     (if py_eq k' k then (k', v) # d else (k', v') # pydict_set d k v)"

fun compile_entries ::
  "remote \<Rightarrow> bool \<Rightarrow> (pyobj \<times> pyobj) list \<Rightarrow> var_values \<Rightarrow> ssm_parameter list
    \<Rightarrow> error + ((pyobj \<times> pyobj) list \<times> var_values)" where
  "compile_entries r ignore_disabled out env [] = Inr (out, env)"
| "compile_entries r ignore_disabled out env (p # ps) =
     (case SSMParameter_disable r env p of
        Inl e \<Rightarrow> Inl e
      | Inr (d, env1) \<Rightarrow>
         if d \<and> ignore_disabled then compile_entries r ignore_disabled out env1 ps
         else
           (case SSMParameter_dump r env1 p of
              Inl e \<Rightarrow> Inl e
            | Inr (data, env2) \<Rightarrow>
               (case map_of data ''Name'' of
                  None \<Rightarrow> Inl KeyError
                | Some n \<Rightarrow>
                   if \<not> hashable n then Inl (TypeError ''unhashable type'')
                   else compile_entries r ignore_disabled
                          (pydict_set out n (PDict (filter (\<lambda>kv. fst kv \<noteq> ''Name'') data)))
                          env2 ps)))"

definition compile_parameter_file ::
  "remote \<Rightarrow> var_values \<Rightarrow> ssm_parameter list \<Rightarrow> pyobj \<Rightarrow> bool
    \<Rightarrow> error + ((pyobj \<times> pyobj) list \<times> var_values)" where
  "compile_parameter_file r env parameters flush ignore_disabled =
     compile_entries r ignore_disabled
       (if truthy flush then [(PStr ''.FLUSH'', flush)] else []) env parameters"

text \<open>A document with a top-level key that starts with a dot and is not reserved.\<close>

definition hidden_key_doc :: "(string \<times> pyobj) list" where
  "hidden_key_doc = [(''.hidden'', PStr ''x''), (''/app/a'', PStr ''y'')]"

section \<open>Documents that compile back to themselves\<close>

text \<open>
  The documents of the round trip. A string is free of references when
  \<open>_REFERENCE_PATTERN\<close> finds none in it. \<open>plain_fields n f\<close> describes the entry of the
  key \<open>n\<close> once its sugar is expanded and it is laid over \<open>.COMMON\<close> (the dict \<open>f\<close> that
  \<open>SSMParameter.load\<close> receives): the name is the key and has no reference; there is no
  \<open>Disable\<close> or \<open>Disabled\<close> field; \<open>AllowedPattern\<close> has no reference; and either there
  is no \<open>KeyId\<close>, the type is not \<open>SecureString\<close> and \<open>Value\<close> is a string without
  references or, with a \<open>Type\<close> given, a list of such strings; or \<open>KeyId\<close> is a non-empty
  string, \<open>EncryptedValue\<close> a string, both without references, and \<open>Type\<close>, when
  given, is \<open>SecureString\<close>.
\<close>

definition ref_free :: "string \<Rightarrow> bool" where
  "ref_free s = (findall_references s = [])"

definition ref_free_obj :: "pyobj \<Rightarrow> bool" where
  "ref_free_obj x = (case x of PStr s \<Rightarrow> ref_free s | PVar s ns k c \<Rightarrow> False | _ \<Rightarrow> True)"

definition is_ref_free_str :: "pyobj \<Rightarrow> bool" where
  "is_ref_free_str x = (case x of PStr s \<Rightarrow> ref_free s | _ \<Rightarrow> False)"

definition plain_fields :: "string \<Rightarrow> (string \<times> pyobj) list \<Rightarrow> bool" where
  "plain_fields n f =
     (map_of f ''Name'' = Some (PStr n) \<and> ref_free n
      \<and> \<not> dict_has f ''Disable'' \<and> \<not> dict_has f ''Disabled''
      \<and> ref_free_obj (dict_get f ''AllowedPattern'')
      \<and> (if dict_has f ''KeyId''
          then is_ref_free_str (dict_get f ''KeyId'') \<and> truthy (dict_get f ''KeyId'')
               \<and> dict_has f ''EncryptedValue'' \<and> is_ref_free_str (dict_get f ''EncryptedValue'')
               \<and> (truthy (dict_get f ''Type'') \<longrightarrow> py_eq_str (dict_get f ''Type'') ''SecureString'')
          else \<not> py_eq_str (dict_get f ''Type'') ''SecureString''
               \<and> (case dict_get f ''Value'' of
                     PStr s \<Rightarrow> ref_free s
                   | PList xs \<Rightarrow> list_all is_ref_free_str xs \<and> truthy (dict_get f ''Type'')
                   | _ \<Rightarrow> False)))"

text \<open>The dict \<open>SSMParameter.load\<close> receives for the entry \<open>data\<close> of the key \<open>n\<close>
  (empty when building it raises).\<close>

definition merged_fields :: "pyobj \<Rightarrow> string \<Rightarrow> pyobj \<Rightarrow> (string \<times> pyobj) list" where
  "merged_fields common_data n data =
     (case param_data_of common_data n data of Inl e \<Rightarrow> [] | Inr f \<Rightarrow> f)"

text \<open>
  \<open>plain_inputs\<close> holds of an \<open>.INPUT\<close> section that \<open>Input.load\<close> accepts: a dict whose
  values are type strings or dicts, none of them a \<open>SecureString\<close> with a \<open>Default\<close>.
  \<open>plain_document\<close> holds of an ASCII document whose \<open>.INPUT\<close>, when there is one, is
  such a section, whose \<open>.COMMON\<close>, when there is one, is a dict, and whose entries under
  the keys that do not start with a dot are strings, lists or dicts with plain fields.
\<close>

definition plain_inputs :: "pyobj \<Rightarrow> bool" where
  "plain_inputs x =
     (case x of
        PDict items \<Rightarrow>
          list_all (\<lambda>kv. case snd kv of
                            PStr t \<Rightarrow> True
                          | PDict data \<Rightarrow>
                              \<not> (py_eq (dict_get data ''Type'') (PStr ''SecureString'')
                                 \<and> dict_has data ''Default'')
                          | _ \<Rightarrow> False) items
      | _ \<Rightarrow> False)"

definition is_dict :: "pyobj \<Rightarrow> bool" where
  "is_dict x = (case x of PDict kvs \<Rightarrow> True | _ \<Rightarrow> False)"

definition is_entry :: "pyobj \<Rightarrow> bool" where
  "is_entry x = (case x of PStr s \<Rightarrow> True | PList xs \<Rightarrow> True | PDict kvs \<Rightarrow> True | _ \<Rightarrow> False)"

definition plain_document :: "(string \<times> pyobj) list \<Rightarrow> bool" where
  "plain_document obj =
     (distinct (map fst obj)
      \<and> ascii_obj (PDict obj)
      \<and> plain_inputs (dict_get_or obj ''.INPUT'' (PDict []))
      \<and> is_dict (dict_get_or obj ''.COMMON'' (PDict []))
      \<and> list_all (\<lambda>(n, data).
            startswith_dot n \<or>
            (is_entry data
             \<and> plain_fields n (merged_fields (dict_get_or obj ''.COMMON'' (PDict [])) n data))) obj)"

text \<open>
  The entry the round trip promises for the fields \<open>f\<close>: the \<open>Type\<close> given, or when none
  is given \<open>SecureString\<close> with a \<open>KeyId\<close> and \<open>String\<close> without; as \<open>Value\<close> the string
  value, the list's elements joined by commas, or the \<open>EncryptedValue\<close>; and those of
  \<open>AllowedPattern\<close>, \<open>Description\<close> and \<open>KeyId\<close> that are set.
\<close>

definition round_trip_entry :: "(string \<times> pyobj) list \<Rightarrow> (string \<times> pyobj) list" where
  "round_trip_entry f =
     [(''Type'', if truthy (dict_get f ''Type'') then dict_get f ''Type''
                 else if dict_has f ''KeyId'' then PStr ''SecureString'' else PStr ''String''),
      (''Value'', if dict_has f ''KeyId'' then dict_get f ''EncryptedValue''
                  else (case dict_get f ''Value'' of
                          PList xs \<Rightarrow> PStr (join '','' (map str_of xs))
                        | v \<Rightarrow> v))]
     @ (if truthy (dict_get f ''AllowedPattern'') then [(''AllowedPattern'', dict_get f ''AllowedPattern'')] else [])
     @ (if truthy (dict_get f ''Description'') then [(''Description'', dict_get f ''Description'')] else [])
     @ (if dict_has f ''KeyId'' then [(''KeyId'', dict_get f ''KeyId'')] else [])"

text \<open>Three documents: a bare list entry, a \<open>SecureString\<close> entry, and a document with
  \<open>.COMMON\<close> and one entry of each kind.\<close>

definition list_entry_doc :: "(string \<times> pyobj) list" where
  "list_entry_doc = [(''/app/hosts'', PList [PStr ''a'', PStr ''b''])]"

definition secure_entry_doc :: "(string \<times> pyobj) list" where
  "secure_entry_doc =
     [(''/app/secret'', PDict [(''Type'', PStr ''SecureString''), (''KeyId'', PStr ''alias/k''),
                              (''EncryptedValue'', PStr ''AQICAHh'')])]"

definition round_trip_doc :: "(string \<times> pyobj) list" where
  "round_trip_doc =
     [(''.COMMON'', PDict [(''Description'', PStr ''shared'')]),
      (''/app/name'', PStr ''demo''),
      (''/app/hosts'', PList [PStr ''a'', PStr ''b'']),
      (''/app/port'', PDict [(''Value'', PStr ''8080''), (''AllowedPattern'', PStr ''^[0-9]+$''),
                            (''Description'', PStr ''listening port'')]),
      (''/app/secret'', PDict [(''KeyId'', PStr ''alias/k''), (''EncryptedValue'', PStr ''AQICAHh'')])]"

section \<open>Properties of SSMParameter construction\<close>

text \<open>
  Claim C8. Construction succeeds exactly when a key-id is present (true in Python's
  truth test, as \<open>__init__\<close> tests it) if and only if the type is \<open>SecureString\<close>;
  a key-id on another type, and a \<open>SecureString\<close> without key-id, both end in the
  \<open>ValueError\<close>; the object built keeps the type and the key-id it was given.
\<close>

theorem SSMParameter_init_key_id_iff_secure:
  "((\<exists>p. SSMParameter_init name type val allowed_pattern description key_id overwrite disable = Inr p
        \<and> p_type p = type \<and> p_key_id p = key_id)
      = (truthy key_id = py_eq_str type ''SecureString''))
   \<and> (SSMParameter_init name type val allowed_pattern description key_id overwrite disable
         = Inl (ValueError ''Mismatched secure inputs on parameter'')
       = (truthy key_id \<noteq> py_eq_str type ''SecureString''))"
  by (auto simp: SSMParameter_init_def)

theorem SSMParameter_init_key_id_iff_secure_witness:
  "SSMParameter_init (PStr ''/a'') (PStr ''String'') (PStr ''v'') PNone PNone (PStr ''k'') PNone PNone
     = Inl (ValueError ''Mismatched secure inputs on parameter'')
   \<and> SSMParameter_init (PStr ''/a'') (PStr ''SecureString'') (PStr ''v'') PNone PNone PNone PNone PNone
     = Inl (ValueError ''Mismatched secure inputs on parameter'')
   \<and> (\<exists>p. SSMParameter_init (PStr ''/a'') (PStr ''SecureString'') (PStr ''v'') PNone PNone
           (PStr ''k'') PNone PNone = Inr p
         \<and> p_type p = PStr ''SecureString'' \<and> p_key_id p = PStr ''k'')
   \<and> (\<exists>p. SSMParameter_init (PStr ''/a'') (PStr ''String'') (PStr ''v'') PNone PNone
           PNone PNone PNone = Inr p
         \<and> p_type p = PStr ''String'' \<and> p_key_id p = PNone)"
  using SSMParameter_init_key_id_iff_secure
      [of "PStr ''/a''" "PStr ''String''" "PStr ''v''" PNone PNone "PStr ''k''" PNone PNone]
    SSMParameter_init_key_id_iff_secure
      [of "PStr ''/a''" "PStr ''SecureString''" "PStr ''v''" PNone PNone PNone PNone PNone]
    SSMParameter_init_key_id_iff_secure
      [of "PStr ''/a''" "PStr ''SecureString''" "PStr ''v''" PNone PNone "PStr ''k''" PNone PNone]
    SSMParameter_init_key_id_iff_secure
      [of "PStr ''/a''" "PStr ''String''" "PStr ''v''" PNone PNone PNone PNone PNone]
  by simp

section \<open>Merging Inputs\<close>





section \<open>The resolver\<close>

lemma resolve_input_user:
  "resolve_input r prompt inputs name console = Inr (b, inputs', console') \<Longrightarrow> \<exists>i. b = UserInput i"
  by (auto simp: resolve_input_def split: option.splits if_splits sum.splits)

text \<open>
  Claim C5 says that \<open>Region\<close> and \<open>Account\<close> never resolve to a user Input, whatever
  the Input map holds. The resolver looks at the two names only when the map has no
  entry for them: with an Input named \<open>Region\<close> in the map, whose value is \<open>mars\<close>, the
  resolver returns that Input and \<open>get_value\<close> gives \<open>mars\<close>, not the session's region.
\<close>

theorem resolver_builtin_names_counterexample:
  "resolver demo_remote True
     [(''Region'', set_value (Input_init ''Region'' (PStr ''String'') PNone PNone PNone) (PStr ''mars'') PNone)]
     ''Region'' []
   = Inr (UserInput (set_value (Input_init ''Region'' (PStr ''String'') PNone PNone PNone) (PStr ''mars'') PNone),
          [(''Region'', set_value (Input_init ''Region'' (PStr ''String'') PNone PNone PNone) (PStr ''mars'') PNone)],
          [])
   \<and> binding_get_value demo_remote
        (UserInput (set_value (Input_init ''Region'' (PStr ''String'') PNone PNone PNone) (PStr ''mars'') PNone))
        PNone
      = Inr (PStr ''mars'',
             UserInput (set_value (Input_init ''Region'' (PStr ''String'') PNone PNone PNone) (PStr ''mars'') PNone))
   \<and> region_name demo_remote = PStr ''eu-west-1''"
  by (simp add: resolver_def resolve_input_def dict_has_def value_is_set_def set_value_def
        Input_init_def binding_get_value_def get_value_def demo_remote_def)

text \<open>
  Claim C5, amended. When the Input map has no entry named \<open>Region\<close> (\<open>Account\<close>),
  resolving that name gives the delegated resolver, with the map and the console
  untouched, whether prompting is on or off, and the resolver's \<open>get_value\<close> is the
  session's region (the caller's account id) for every key-id. A name that is in the map
  is resolved as a user Input: the result is never one of the two delegated resolvers.
\<close>

theorem resolver_builtin_names:
  "(\<not> dict_has inputs ''Region'' \<longrightarrow>
      resolver r prompt inputs ''Region'' console = Inr (RegionResolver, inputs, console))
   \<and> (\<not> dict_has inputs ''Account'' \<longrightarrow>
      resolver r prompt inputs ''Account'' console = Inr (AccountResolver, inputs, console))
   \<and> binding_get_value r RegionResolver key_id = Inr (region_name r, RegionResolver)
   \<and> binding_get_value r AccountResolver key_id = Inr (account_id r, AccountResolver)
   \<and> (dict_has inputs name \<longrightarrow>
        resolver r prompt inputs name console = resolve_input r prompt inputs name console
        \<and> (\<forall>b inputs' console'.
              resolver r prompt inputs name console = Inr (b, inputs', console')
              \<longrightarrow> (\<exists>i. b = UserInput i)))"
  by (auto simp: resolver_def binding_get_value_def dest: resolve_input_user)

theorem resolver_builtin_names_witness:
  "\<not> dict_has [(''Foo'', Input_init ''Foo'' PNone PNone PNone PNone)] ''Region''
   \<and> resolver demo_remote False [(''Foo'', Input_init ''Foo'' PNone PNone PNone PNone)] ''Region'' []
       = Inr (RegionResolver, [(''Foo'', Input_init ''Foo'' PNone PNone PNone PNone)], [])
   \<and> \<not> dict_has [(''Foo'', Input_init ''Foo'' PNone PNone PNone PNone)] ''Account''
   \<and> resolver demo_remote False [(''Foo'', Input_init ''Foo'' PNone PNone PNone PNone)] ''Account'' []
       = Inr (AccountResolver, [(''Foo'', Input_init ''Foo'' PNone PNone PNone PNone)], [])
   \<and> binding_get_value demo_remote RegionResolver PNone = Inr (PStr ''eu-west-1'', RegionResolver)
   \<and> binding_get_value demo_remote AccountResolver PNone = Inr (PStr ''123456789012'', AccountResolver)
   \<and> dict_has [(''Foo'', Input_init ''Foo'' PNone PNone PNone PNone)] ''Foo''
   \<and> resolver demo_remote False [(''Foo'', Input_init ''Foo'' PNone PNone PNone PNone)] ''Foo'' []
       = resolve_input demo_remote False [(''Foo'', Input_init ''Foo'' PNone PNone PNone PNone)] ''Foo'' []"
  using resolver_builtin_names
    [of "[(''Foo'', Input_init ''Foo'' PNone PNone PNone PNone)]" demo_remote False "[]" PNone "''Foo''"]
  by (simp add: dict_has_def demo_remote_def)

text \<open>
  What a prompt reads. An Input of type \<open>String\<close>, \<open>SecureString\<close> or \<open>StringList\<close>
  reads at least one line: with no line left the prompt raises \<open>EOFError\<close>, and when it
  returns, the console is what was left after the first line or less.
\<close>

lemma read_entries_suffix:
  "read_entries entry console = Inr (vs, console') \<Longrightarrow> \<exists>k. console' = drop k console"
proof (induction console arbitrary: entry vs)
  case Nil
  then show ?case by (auto split: if_splits)
next
  case (Cons l ls)
  show ?case
  proof (cases "entry = []")
    case True
    with Cons.prems have "console' = l # ls" by simp
    then show ?thesis by (metis drop0)
  next
    case False
    with Cons.prems obtain vs' where "read_entries l ls = Inr (vs', console')"
      by (auto split: sum.splits)
    from Cons.IH[OF this] obtain k where "console' = drop k ls" by blast
    then have "console' = drop (Suc k) (l # ls)" by simp
    then show ?thesis by blast
  qed
qed

lemma set_value_from_prompt_reads:
  assumes ty: "py_eq (i_type i) (PStr ''String'') \<or> py_eq (i_type i) (PStr ''SecureString'')
               \<or> py_eq (i_type i) (PStr ''StringList'')"
  shows "set_value_from_prompt r i [] = Inl EOFError"
    and "set_value_from_prompt r i (l # ls) = Inr (i', console') \<Longrightarrow> \<exists>k. console' = drop k ls"
proof -
  show "set_value_from_prompt r i [] = Inl EOFError"
    using ty by (auto simp: set_value_from_prompt_def prompt_for_string_def
        prompt_for_stringlist_def input_fn_def)
  assume ok: "set_value_from_prompt r i (l # ls) = Inr (i', console')"
  have ps: "\<exists>k. c = drop k ls" if "prompt_for_string r i (l # ls) = Inr (v, c)" for v c
  proof -
    from that have "c = ls"
      by (auto simp: prompt_for_string_def input_fn_def split: if_splits sum.splits bool.splits)
    then show ?thesis by (metis drop0)
  qed
  have pl: "\<exists>k. c = drop k ls" if "prompt_for_stringlist r i (l # ls) = Inr (v, c)" for v c
  proof -
    from that have "c = ls \<or> (\<exists>others. read_entries l ls = Inr (others, c))"
      by (auto simp: prompt_for_stringlist_def input_fn_def split: if_splits sum.splits bool.splits)
    then show ?thesis by (metis drop0 read_entries_suffix)
  qed
  from ok ty show "\<exists>k. console' = drop k ls"
    by (auto simp: set_value_from_prompt_def split: if_splits sum.splits dest: ps pl)
qed

lemma py_eq_String_not_Secure:
  "py_eq t (PStr ''String'') \<Longrightarrow> \<not> py_eq t (PStr ''SecureString'')"
  by (cases t) auto

text \<open>
  Claim C10 says that after \<open>set_value("")\<close> every Input reports unset, and that the
  resolver then prompts again when prompting is on. Two Inputs behave otherwise.
  A \<open>SecureString\<close> Input that was given a plaintext with \<open>encrypted=False\<close> keeps it:
  \<open>set_value("")\<close> stores the empty string as ciphertext, \<open>value_is_set\<close> still answers
  with the plaintext, and the resolver returns the Input without prompting or raising.
  An Input of a type other than \<open>String\<close>, \<open>SecureString\<close> and \<open>StringList\<close> (\<open>Input.load\<close>
  accepts any type) reports unset after \<open>set_value("")\<close>, but \<open>set_value_from_prompt\<close>
  has no branch for it: with prompting on, the resolver returns the Input as it is, still
  unset, and the line waiting on the console is not read.
\<close>

theorem set_value_empty_counterexample:
  "truthy (value_is_set
      (set_value (set_value (Input_init ''Key'' (PStr ''SecureString'') PNone PNone PNone)
                    (PStr ''plain'') (PBool False))
         (PStr []) PNone))
   \<and> resolver demo_remote False
        [(''Key'', set_value (set_value (Input_init ''Key'' (PStr ''SecureString'') PNone PNone PNone)
                               (PStr ''plain'') (PBool False))
                    (PStr []) PNone)]
        ''Key'' []
      = Inr (UserInput \<lparr> i_name = ''Key'', i_type = PStr ''SecureString'', i_pattern = PNone,
                          i_description = PNone, i_default = PNone, i_value = PStr ''plain'',
                          i_encrypted_value = PStr [], i_decrypted_value = PNone \<rparr>,
             [(''Key'', \<lparr> i_name = ''Key'', i_type = PStr ''SecureString'', i_pattern = PNone,
                          i_description = PNone, i_default = PNone, i_value = PStr ''plain'',
                          i_encrypted_value = PStr [], i_decrypted_value = PNone \<rparr>)],
             [])
   \<and> Input_load (PDict [(''Odd'', PStr ''Foo'')])
      = Inr [(''Odd'', Input_init ''Odd'' (PStr ''Foo'') PNone PNone PNone)]
   \<and> \<not> truthy (value_is_set
          (set_value (Input_init ''Odd'' (PStr ''Foo'') PNone PNone PNone) (PStr []) PNone))
   \<and> resolver demo_remote True
        [(''Odd'', set_value (Input_init ''Odd'' (PStr ''Foo'') PNone PNone PNone) (PStr []) PNone)]
        ''Odd'' [''bar'']
      = Inr (UserInput \<lparr> i_name = ''Odd'', i_type = PStr ''Foo'', i_pattern = PNone,
                          i_description = PNone, i_default = PNone, i_value = PStr [],
                          i_encrypted_value = PNone, i_decrypted_value = PNone \<rparr>,
             [(''Odd'', \<lparr> i_name = ''Odd'', i_type = PStr ''Foo'', i_pattern = PNone,
                          i_description = PNone, i_default = PNone, i_value = PStr [],
                          i_encrypted_value = PNone, i_decrypted_value = PNone \<rparr>)],
             [''bar''])"
  by (simp add: resolver_def resolve_input_def dict_has_def value_is_set_def set_value_def
        Input_init_def Input_load_def dict_get_def set_value_from_prompt_def)

text \<open>
  Claim C10, amended. Take an Input of type \<open>String\<close>, \<open>SecureString\<close> or \<open>StringList\<close>
  whose other slot holds nothing (no plaintext on a \<open>SecureString\<close> Input, no ciphertext
  on the other two). After \<open>set_value("")\<close>, \<open>value_is_set\<close> is false, and the resolver,
  asked for the name the Input is registered under, treats it as unsupplied. With
  prompting off it raises the input-missing \<open>InputError\<close>. With prompting on it reads
  from the console: with no line to read it raises \<open>EOFError\<close>; when it returns, the
  first line at least has been consumed, the result is a user Input and that Input is
  stored back under the name. For a \<open>String\<close> Input with no pattern the Input returned
  is the original with the line read as its value (the default, when the line is empty
  and there is a truthy default); for a \<open>SecureString\<close> Input with no pattern it is the
  Input with the empty ciphertext and the line read as its decrypted value.
\<close>

theorem set_value_empty_is_unset:
  assumes ty: "py_eq (i_type i) (PStr ''String'') \<or> py_eq (i_type i) (PStr ''SecureString'')
               \<or> py_eq (i_type i) (PStr ''StringList'')"
    and other: "if py_eq (i_type i) (PStr ''SecureString'')
                then \<not> truthy (i_value i) else \<not> truthy (i_encrypted_value i)"
    and reg: "map_of inputs name = Some (set_value i (PStr []) PNone)"
  shows "\<not> truthy (value_is_set (set_value i (PStr []) PNone))
     \<and> resolver r False inputs name console = Inl (InputError ''Input not given'')
     \<and> resolver r True inputs name [] = Inl EOFError
     \<and> (\<forall>b inputs' console'.
           resolver r True inputs name (l # ls) = Inr (b, inputs', console')
           \<longrightarrow> (\<exists>k. console' = drop k ls)
               \<and> (\<exists>i'. b = UserInput i' \<and> inputs' = dict_set inputs name i'))
     \<and> (py_eq (i_type i) (PStr ''String'') \<and> \<not> truthy (i_pattern i)
          \<longrightarrow> resolver r True inputs name (l # ls)
              = Inr (UserInput (i\<lparr>i_value := (if l = [] \<and> truthy (i_default i)
                                                 then i_default i else PStr l)\<rparr>),
                     dict_set inputs name
                       (i\<lparr>i_value := (if l = [] \<and> truthy (i_default i)
                                       then i_default i else PStr l)\<rparr>),
                     ls))
     \<and> (py_eq (i_type i) (PStr ''SecureString'') \<and> \<not> truthy (i_pattern i)
          \<longrightarrow> resolver r True inputs name (l # ls)
              = Inr (UserInput (i\<lparr>i_encrypted_value := PStr [],
                                  i_decrypted_value := (if l = [] \<and> truthy (i_default i)
                                                         then i_default i else PStr l)\<rparr>),
                     dict_set inputs name
                       (i\<lparr>i_encrypted_value := PStr [],
                          i_decrypted_value := (if l = [] \<and> truthy (i_default i)
                                                 then i_default i else PStr l)\<rparr>),
                     ls))"
proof -
  let ?j = "set_value i (PStr []) PNone"
  have unset: "\<not> truthy (value_is_set ?j)"
    using other by (auto simp: value_is_set_def set_value_def)
  have has: "dict_has inputs name" using reg by (simp add: dict_has_def)
  have tyj: "i_type ?j = i_type i" by (simp add: set_value_def)
  have res: "resolver r True inputs name c
      = (case set_value_from_prompt r ?j c of
           Inl e \<Rightarrow> Inl e
         | Inr (i', c') \<Rightarrow> Inr (UserInput i', dict_set inputs name i', c'))" for c
    using unset has reg by (simp add: resolver_def resolve_input_def)
  have off: "resolver r False inputs name console = Inl (InputError ''Input not given'')"
    using unset has reg by (simp add: resolver_def resolve_input_def)
  have tyj': "py_eq (i_type ?j) (PStr ''String'') \<or> py_eq (i_type ?j) (PStr ''SecureString'')
               \<or> py_eq (i_type ?j) (PStr ''StringList'')"
    using ty tyj by simp
  have eof: "resolver r True inputs name [] = Inl EOFError"
    unfolding res using set_value_from_prompt_reads(1)[OF tyj'] by simp
  have reads: "(\<exists>k. console' = drop k ls) \<and> (\<exists>i'. b = UserInput i' \<and> inputs' = dict_set inputs name i')"
    if "resolver r True inputs name (l # ls) = Inr (b, inputs', console')" for b inputs' console'
  proof -
    from that obtain i' where p: "set_value_from_prompt r ?j (l # ls) = Inr (i', console')"
      and b: "b = UserInput i'" "inputs' = dict_set inputs name i'"
      unfolding res by (auto split: sum.splits)
    from set_value_from_prompt_reads(2)[OF tyj' p] b show ?thesis by blast
  qed
  have str: "resolver r True inputs name (l # ls)
              = Inr (UserInput (i\<lparr>i_value := (if l = [] \<and> truthy (i_default i)
                                                 then i_default i else PStr l)\<rparr>),
                     dict_set inputs name
                       (i\<lparr>i_value := (if l = [] \<and> truthy (i_default i)
                                       then i_default i else PStr l)\<rparr>),
                     ls)"
    if st: "py_eq (i_type i) (PStr ''String'')" and np: "\<not> truthy (i_pattern i)"
  proof -
    from st have ns: "\<not> py_eq (i_type i) (PStr ''SecureString'')"
      by (rule py_eq_String_not_Secure)
    show ?thesis
      unfolding res using st np ns
      by (simp add: set_value_from_prompt_def prompt_for_string_def input_fn_def
            pattern_rejects_def set_value_def)
  qed
  have sec: "resolver r True inputs name (l # ls)
              = Inr (UserInput (i\<lparr>i_encrypted_value := PStr [],
                                  i_decrypted_value := (if l = [] \<and> truthy (i_default i)
                                                         then i_default i else PStr l)\<rparr>),
                     dict_set inputs name
                       (i\<lparr>i_encrypted_value := PStr [],
                          i_decrypted_value := (if l = [] \<and> truthy (i_default i)
                                                 then i_default i else PStr l)\<rparr>),
                     ls)"
    if st: "py_eq (i_type i) (PStr ''SecureString'')" and np: "\<not> truthy (i_pattern i)"
  proof -
    from st have ns: "\<not> py_eq (i_type i) (PStr ''String'')"
      using py_eq_String_not_Secure by blast
    show ?thesis
      unfolding res using st np ns
      by (simp add: set_value_from_prompt_def prompt_for_string_def input_fn_def
            pattern_rejects_def set_value_def)
  qed
  from unset off eof reads str sec show ?thesis by blast
qed

theorem set_value_empty_is_unset_witness:
  "py_eq (i_type (Input_init ''Foo'' (PStr ''String'') PNone PNone PNone)) (PStr ''String'')
   \<and> (if py_eq (i_type (Input_init ''Foo'' (PStr ''String'') PNone PNone PNone)) (PStr ''SecureString'')
    then \<not> truthy (i_value (Input_init ''Foo'' (PStr ''String'') PNone PNone PNone))
    else \<not> truthy (i_encrypted_value (Input_init ''Foo'' (PStr ''String'') PNone PNone PNone)))
   \<and> map_of [(''Foo'', set_value (Input_init ''Foo'' (PStr ''String'') PNone PNone PNone) (PStr []) PNone)] ''Foo''
       = Some (set_value (Input_init ''Foo'' (PStr ''String'') PNone PNone PNone) (PStr []) PNone)
   \<and> \<not> truthy (i_pattern (Input_init ''Foo'' (PStr ''String'') PNone PNone PNone))
   \<and> \<not> truthy (value_is_set (set_value (Input_init ''Foo'' (PStr ''String'') PNone PNone PNone) (PStr []) PNone))
   \<and> resolver demo_remote False
        [(''Foo'', set_value (Input_init ''Foo'' (PStr ''String'') PNone PNone PNone) (PStr []) PNone)]
        ''Foo'' [''bar'', ''next'']
       = Inl (InputError ''Input not given'')
   \<and> resolver demo_remote True
        [(''Foo'', set_value (Input_init ''Foo'' (PStr ''String'') PNone PNone PNone) (PStr []) PNone)]
        ''Foo'' []
       = Inl EOFError
   \<and> resolver demo_remote True
        [(''Foo'', set_value (Input_init ''Foo'' (PStr ''String'') PNone PNone PNone) (PStr []) PNone)]
        ''Foo'' [''bar'', ''next'']
       = Inr (UserInput \<lparr> i_name = ''Foo'', i_type = PStr ''String'', i_pattern = PNone,
                          i_description = PNone, i_default = PNone, i_value = PStr ''bar'',
                          i_encrypted_value = PNone, i_decrypted_value = PNone \<rparr>,
              [(''Foo'', \<lparr> i_name = ''Foo'', i_type = PStr ''String'', i_pattern = PNone,
                          i_description = PNone, i_default = PNone, i_value = PStr ''bar'',
                          i_encrypted_value = PNone, i_decrypted_value = PNone \<rparr>)],
              [''next''])"
  using set_value_empty_is_unset
    [of "Input_init ''Foo'' (PStr ''String'') PNone PNone PNone"
        "[(''Foo'', set_value (Input_init ''Foo'' (PStr ''String'') PNone PNone PNone) (PStr []) PNone)]"
        "''Foo''" demo_remote "[''bar'', ''next'']" "''bar''" "[''next'']"]
  by (simp add: Input_init_def set_value_def)

section \<open>Type inference in SSMParameter.load\<close>

text \<open>
  Claim C1 says that a fragment without \<open>Type\<close> and without \<open>KeyId\<close> whose \<open>Value\<close> is not
  a string is loaded as a \<open>StringList\<close>. Lines 309-314 of \<open>load\<close> compute just that, and
  line 315 then assigns the type again from \<open>KeyId\<close> alone: on the fragment
  \<open>{Name: /app/hosts, Value: [a, b]}\<close> the parameter loaded has type \<open>String\<close>, its value
  being the list.
\<close>

theorem load_list_value_without_type:
  "\<exists>p. SSMParameter_load [(''Name'', PStr ''/app/hosts''), (''Value'', PList [PStr ''a'', PStr ''b''])] False = Inr p
       \<and> p_type p = PStr ''String''
       \<and> p_value p = PList [VarString_init ''a'' PNone, VarString_init ''b'' PNone]"
  by (simp add: SSMParameter_load_def dict_item_def dict_get_def dict_has_def infer_type_def
        is_str_def load_varstring_def load_value_def VarString_load_def SSMParameter_init_def)

text \<open>No fragment is inferred to be a \<open>StringList\<close>.\<close>

lemma infer_type_never_StringList:
  "infer_type obj = Inr t \<Longrightarrow> t = PStr ''SecureString'' \<or> t = PStr ''String''"
  by (auto simp: infer_type_def split: if_splits sum.splits)

section \<open>batch_put\<close>

text \<open>
  Claim C2 says that \<open>batch_put\<close> writes every enabled parameter exactly once. The outer
  loop of \<open>batch_put\<close> runs once per slice of ten and its body writes all of \<open>args\<close>: with
  eleven enabled parameters there are two slices, and the store receives twenty-two
  requests, each parameter twice.
\<close>

theorem batch_put_eleven_parameters:
  "batch_put demo_remote False [] (map demo_parameter eleven_names)
     = Inr (map (\<lambda>n. [(''Name'', PStr n), (''Type'', PStr ''String''), (''Value'', PStr ''v'')])
              (eleven_names @ eleven_names), [])"
  by code_simp

section \<open>VarString.value\<close>

text \<open>
  What holds of \<open>value\<close>: a \<open>VarString\<close> without references reads as its template,
  whatever \<open>_VAR_VALUES\<close> holds; a non-empty string that has been read once is cached
  in the object and read again unchanged, whatever \<open>_VAR_VALUES\<close> has become; and a
  replacement without a backslash is a template that stands for itself.
\<close>

lemma VarString_value_no_references:
  "findall_references s = [] \<Longrightarrow>
   VarString_value r env (VarString_init s k) = Inr (s, VarString_init s k, env)"
  by (cases s) (simp_all add: VarString_init_def)

lemma VarString_value_cached:
  assumes "VarString_value r env vs = Inr (v, vs', env')" and "v \<noteq> []"
  shows "VarString_value r env2 vs' = Inr (v, vs', env2)"
proof (cases vs)
  case (PVar s names k cache)
  from assms obtain c cs where v: "v = c # cs" by (cases v) auto
  from assms PVar have "vs' = PVar s names k (Some v)"
    by (auto split: option.splits list.splits sum.splits)
  with v show ?thesis by simp
qed (use assms in simp_all)

lemma expand_template_no_backslash:
  "CHR 0x5C \<notin> set t \<Longrightarrow> expand_template m t = Inr t"
  by (induction t) auto

text \<open>
  Claim C3 says that the resolved value of an Input is inserted verbatim. \<open>value\<close> hands
  it to \<open>pattern.sub\<close> as the replacement, where \<open>re\<close> reads it as a template: in
  \<open>path=$(Dir)\<close> with \<open>Dir\<close> resolved to \<open>C:\temp\<close> the backslash and the \<open>t\<close> become a
  tab; with \<open>Dir\<close> resolved to \<open>C:\\<close> the read raises \<open>re.error\<close>. The names are replaced
  one after the other on the growing string, so a reference in the value of \<open>a\<close> is
  replaced in turn: with \<open>a\<close> resolved to \<open>$(b)\<close> and \<open>b\<close> to \<open>x\<close>, the template
  \<open>$(a)-$(b)\<close> reads \<open>x-x\<close>.
\<close>

theorem VarString_value_backslash:
  "VarString_value demo_remote [(''Dir'', demo_input ''Dir'' (''C:'' @ [CHR 0x5C] @ ''temp''))]
       (VarString_init ''path=$(Dir)'' PNone)
     = Inr (''path=C:'' @ [CHR 0x09] @ ''emp'',
            PVar ''path=$(Dir)'' [''Dir''] PNone (Some (''path=C:'' @ [CHR 0x09] @ ''emp'')),
            [(''Dir'', demo_input ''Dir'' (''C:'' @ [CHR 0x5C] @ ''temp''))])
   \<and> VarString_value demo_remote [(''Dir'', demo_input ''Dir'' (''C:'' @ [CHR 0x5C]))]
       (VarString_init ''path=$(Dir)'' PNone)
     = Inl ReError
   \<and> VarString_value demo_remote [(''a'', demo_input ''a'' ''$(b)''), (''b'', demo_input ''b'' ''x'')]
       (VarString_init ''$(a)-$(b)'' PNone)
     = Inr (''x-x'', PVar ''$(a)-$(b)'' [''a'', ''b''] PNone (Some ''x-x''),
            [(''a'', demo_input ''a'' ''$(b)''), (''b'', demo_input ''b'' ''x'')])"
  by code_simp

section \<open>Reading the value of a parameter that has none\<close>

text \<open>
  Claim C9 says that an enabled parameter with no value raises the missing-value error
  when its value is read. The error message holds the parameter's name, which \<open>value\<close>
  resolves first: for a parameter named \<open>/app/$(Env)/x\<close> the read raises the \<open>KeyError\<close>
  of the unresolved \<open>Env\<close>, or, with \<open>Env\<close> resolved to \<open>C:\\<close>, the \<open>re.error\<close> of the
  substitution.
\<close>

theorem unset_value_counterexample:
  "p_value (unset_parameter ''/app/$(Env)/x'' PNone) = PNone
   \<and> SSMParameter_disable demo_remote [] (unset_parameter ''/app/$(Env)/x'' PNone) = Inr (False, [])
   \<and> SSMParameter_value demo_remote [] (unset_parameter ''/app/$(Env)/x'' PNone) = Inl KeyError
   \<and> SSMParameter_disable demo_remote [(''Env'', demo_input ''Env'' (''C:'' @ [CHR 0x5C]))]
        (unset_parameter ''/app/$(Env)/x'' PNone)
      = Inr (False, [(''Env'', demo_input ''Env'' (''C:'' @ [CHR 0x5C]))])
   \<and> SSMParameter_value demo_remote [(''Env'', demo_input ''Env'' (''C:'' @ [CHR 0x5C]))]
        (unset_parameter ''/app/$(Env)/x'' PNone)
      = Inl ReError"
  by code_simp

text \<open>
  Claim C9, amended. Take a parameter with no value. If its disable flag resolves true,
  reading the value returns \<open>None\<close> and raises nothing. If it resolves false, reading the
  value raises: the missing-value \<open>ValueError\<close> when the parameter's name resolves, and
  otherwise the error that resolving the name raises.
\<close>

theorem unset_value_read:
  assumes "p_value p = PNone"
  shows "(SSMParameter_disable r env p = Inr (True, env1)
            \<longrightarrow> SSMParameter_value r env p = Inr (PNone, env1))
       \<and> (SSMParameter_disable r env p = Inr (False, env1)
            \<longrightarrow> (\<exists>e. SSMParameter_value r env p = Inl e)
              \<and> (case SSMParameter_name r env1 p of
                    Inl e \<Rightarrow> SSMParameter_value r env p = Inl e
                  | Inr (n, env2) \<Rightarrow>
                      SSMParameter_value r env p = Inl (ValueError ''Value missing for parameter'')))"
  using assms by (auto simp: SSMParameter_value_def split: sum.splits)

theorem unset_value_read_witness:
  "p_value (unset_parameter ''/app/x'' (VarString_init ''true'' PNone)) = PNone
   \<and> SSMParameter_disable demo_remote [] (unset_parameter ''/app/x'' (VarString_init ''true'' PNone))
       = Inr (True, [])
   \<and> SSMParameter_value demo_remote [] (unset_parameter ''/app/x'' (VarString_init ''true'' PNone))
       = Inr (PNone, [])
   \<and> p_value (unset_parameter ''/app/x'' PNone) = PNone
   \<and> SSMParameter_disable demo_remote [] (unset_parameter ''/app/x'' PNone) = Inr (False, [])
   \<and> SSMParameter_name demo_remote [] (unset_parameter ''/app/x'' PNone) = Inr (PStr ''/app/x'', [])
   \<and> SSMParameter_value demo_remote [] (unset_parameter ''/app/x'' PNone)
       = Inl (ValueError ''Value missing for parameter'')"
proof -
  have v: "p_value (unset_parameter ''/app/x'' (VarString_init ''true'' PNone)) = PNone"
          "p_value (unset_parameter ''/app/x'' PNone) = PNone"
    by (simp_all add: unset_parameter_def)
  have d: "SSMParameter_disable demo_remote [] (unset_parameter ''/app/x'' (VarString_init ''true'' PNone))
             = Inr (True, [])"
          "SSMParameter_disable demo_remote [] (unset_parameter ''/app/x'' PNone) = Inr (False, [])"
    by code_simp+
  have n: "SSMParameter_name demo_remote [] (unset_parameter ''/app/x'' PNone) = Inr (PStr ''/app/x'', [])"
    by code_simp
  from unset_value_read[OF v(1), of demo_remote "[]" "[]"] d(1)
       unset_value_read[OF v(2), of demo_remote "[]" "[]"] d(2) n v
  show ?thesis by simp
qed

section \<open>The parameters of a parsed document\<close>

lemma map_fst_dict_set:
  "map fst (dict_set d k v) = (if k \<in> set (map fst d) then map fst d else map fst d @ [k])"
  by (induction d) (auto simp: rev_image_eqI)

lemma map_of_dict_set:
  "map_of (dict_set d k v) k' = (if k' = k then Some v else map_of d k')"
  by (induction d) auto

lemma parse_entries_keys:
  "parse_entries c v acc rest = Inr ps \<Longrightarrow>
   distinct (map fst acc @ map fst rest) \<Longrightarrow>
   map fst ps = map fst acc @ filter (\<lambda>n. \<not> startswith_dot n) (map fst rest)"
proof (induction rest arbitrary: acc)
  case Nil
  then show ?case by simp
next
  case (Cons a rest)
  obtain n data where a: "a = (n, data)" by (cases a)
  show ?case
  proof (cases "startswith_dot n")
    case True
    with Cons a show ?thesis by auto
  next
    case False
    with Cons.prems a obtain pd p where
      pd: "param_data_of c n data = Inr pd" and p: "SSMParameter_load pd v = Inr p"
      and rec: "parse_entries c v (dict_set acc n p) rest = Inr ps"
      by (auto split: sum.splits)
    have fresh: "n \<notin> set (map fst acc)" using Cons.prems(2) a by auto
    then have keys: "map fst (dict_set acc n p) = map fst acc @ [n]"
      by (simp add: map_fst_dict_set)
    have "distinct (map fst (dict_set acc n p) @ map fst rest)"
      using Cons.prems(2) a keys by auto
    from Cons.IH[OF rec this] keys False a show ?thesis by simp
  qed
qed

lemma parse_entries_kept:
  "parse_entries c v acc rest = Inr ps \<Longrightarrow>
   distinct (map fst acc @ map fst rest) \<Longrightarrow>
   n \<notin> set (map fst rest) \<Longrightarrow> map_of ps n = map_of acc n"
proof (induction rest arbitrary: acc)
  case Nil
  then show ?case by simp
next
  case (Cons a rest)
  obtain m d where a: "a = (m, d)" by (cases a)
  show ?case
  proof (cases "startswith_dot m")
    case True
    with Cons.prems a have "parse_entries c v acc rest = Inr ps"
      "distinct (map fst acc @ map fst rest)" "n \<notin> set (map fst rest)" by auto
    from Cons.IH[OF this] show ?thesis .
  next
    case False
    with Cons.prems(1) a obtain p where
      rec: "parse_entries c v (dict_set acc m p) rest = Inr ps"
      by (auto split: sum.splits)
    have fresh: "m \<notin> set (map fst acc)" using Cons.prems(2) a by auto
    then have keys: "map fst (dict_set acc m p) = map fst acc @ [m]"
      by (simp add: map_fst_dict_set)
    have dist: "distinct (map fst (dict_set acc m p) @ map fst rest)"
      using Cons.prems(2) a keys by auto
    have nm: "n \<noteq> m" "n \<notin> set (map fst rest)" using Cons.prems(3) a by auto
    from Cons.IH[OF rec dist nm(2)] nm(1) show ?thesis
      by (simp add: map_of_dict_set)
  qed
qed

lemma parse_entries_loaded:
  "parse_entries c v acc rest = Inr ps \<Longrightarrow>
   distinct (map fst acc @ map fst rest) \<Longrightarrow>
   (n, data) \<in> set rest \<Longrightarrow> \<not> startswith_dot n \<Longrightarrow>
   \<exists>pd p. param_data_of c n data = Inr pd \<and> SSMParameter_load pd v = Inr p \<and> map_of ps n = Some p"
proof (induction rest arbitrary: acc)
  case Nil
  then show ?case by simp
next
  case (Cons a rest)
  obtain m d where a: "a = (m, d)" by (cases a)
  show ?case
  proof (cases "startswith_dot m")
    case True
    with Cons.prems a have "parse_entries c v acc rest = Inr ps"
      "distinct (map fst acc @ map fst rest)" "(n, data) \<in> set rest" by auto
    from Cons.IH[OF this Cons.prems(4)] show ?thesis .
  next
    case False
    with Cons.prems(1) a obtain pd p where
      pd: "param_data_of c m d = Inr pd" and p: "SSMParameter_load pd v = Inr p"
      and rec: "parse_entries c v (dict_set acc m p) rest = Inr ps"
      by (auto split: sum.splits)
    have fresh: "m \<notin> set (map fst acc)" using Cons.prems(2) a by auto
    then have keys: "map fst (dict_set acc m p) = map fst acc @ [m]"
      by (simp add: map_fst_dict_set)
    have dist: "distinct (map fst (dict_set acc m p) @ map fst rest)"
      using Cons.prems(2) a keys by auto
    show ?thesis
    proof (cases "(n, data) = (m, d)")
      case True
      have "m \<notin> set (map fst rest)" using Cons.prems(2) a by auto
      from parse_entries_kept[OF rec dist this] have "map_of ps m = Some p"
        by (simp add: map_of_dict_set)
      with True pd p show ?thesis by auto
    next
      case False
      with Cons.prems(3) a have "(n, data) \<in> set rest" by auto
      from Cons.IH[OF rec dist this Cons.prems(4)] show ?thesis .
    qed
  qed
qed

text \<open>
  Claim C4 says that every top-level key other than \<open>.INPUT\<close>, \<open>.COMMON\<close> and
  \<open>.FLUSH\<close> becomes a parameter. The loop of \<open>parse_parameter_file\<close> skips every key
  that starts with a dot: the document \<open>{.hidden: x, /app/a: y}\<close> parses to the single
  parameter \<open>/app/a\<close>.
\<close>

theorem parse_keys_counterexample:
  "(case parse_parameter_file hidden_key_doc False of
      Inl e \<Rightarrow> False
    | Inr pf \<Rightarrow> map fst (pf_parameters pf) = [''/app/a''])
   \<and> map fst hidden_key_doc = [''.hidden'', ''/app/a'']
   \<and> ''.hidden'' \<noteq> ''.INPUT'' \<and> ''.hidden'' \<noteq> ''.COMMON'' \<and> ''.hidden'' \<noteq> ''.FLUSH''"
  by code_simp

text \<open>
  Claim C4, amended. When a document parses, its parameters are, in the document's order,
  exactly one per top-level key that does not start with a dot; the three reserved keys
  are not among them; and the parameter of such a key is what \<open>SSMParameter.load\<close>
  makes of the key's entry, the entry's sugar expanded and laid over \<open>.COMMON\<close>.
\<close>

theorem parse_parameter_keys:
  assumes ok: "parse_parameter_file obj v = Inr pf"
    and keys: "distinct (map fst obj)"
  shows "map fst (pf_parameters pf) = filter (\<lambda>n. \<not> startswith_dot n) (map fst obj)
     \<and> distinct (map fst (pf_parameters pf))
     \<and> ''.INPUT'' \<notin> set (map fst (pf_parameters pf))
     \<and> ''.COMMON'' \<notin> set (map fst (pf_parameters pf))
     \<and> ''.FLUSH'' \<notin> set (map fst (pf_parameters pf))
     \<and> (\<forall>(n, data) \<in> set obj. \<not> startswith_dot n \<longrightarrow>
          (\<exists>param_data p.
             param_data_of (dict_get_or obj ''.COMMON'' (PDict [])) n data
               = Inr param_data
             \<and> SSMParameter_load param_data v = Inr p
             \<and> map_of (pf_parameters pf) n = Some p))"
proof -
  let ?c = "dict_get_or obj ''.COMMON'' (PDict [])"
  from ok have pe: "parse_entries ?c v [] obj = Inr (pf_parameters pf)"
    by (auto simp: parse_parameter_file_def Let_def split: sum.splits)
  have d: "distinct (map fst ([] :: (string \<times> ssm_parameter) list) @ map fst obj)"
    using keys by simp
  have k: "map fst (pf_parameters pf) = filter (\<lambda>n. \<not> startswith_dot n) (map fst obj)"
    using parse_entries_keys[OF pe d] by simp
  have l: "\<exists>param_data p. param_data_of ?c n data = Inr param_data
             \<and> SSMParameter_load param_data v = Inr p
             \<and> map_of (pf_parameters pf) n = Some p"
    if "(n, data) \<in> set obj" "\<not> startswith_dot n" for n data
    using parse_entries_loaded[OF pe d that] .
  have dist: "distinct (map fst (pf_parameters pf))"
    using k keys by (simp add: distinct_filter)
  have res: "''.INPUT'' \<notin> set (map fst (pf_parameters pf))"
            "''.COMMON'' \<notin> set (map fst (pf_parameters pf))"
            "''.FLUSH'' \<notin> set (map fst (pf_parameters pf))"
    unfolding k by (simp_all add: startswith_dot_def)
  from k l dist res show ?thesis by blast
qed

theorem parse_parameter_keys_witness:
  "parse_parameter_file
     [(''.FLUSH'', PStr ''/app''), (''/app/a'', PStr ''y''), (''/app/b'', PList [PStr ''u'', PStr ''v''])] False
    = Inr \<lparr> pf_inputs = [],
            pf_parameters =
              [(''/app/a'', \<lparr> p_name = VarString_init ''/app/a'' PNone, p_type = PStr ''String'',
                   p_value = VarString_init ''y'' PNone, p_allowed_pattern = PNone,
                   p_description = PNone, p_key_id = PNone, p_overwrite = PNone, p_disable = PNone,
                   p_version = PNone, p_last_modified_date = PNone, p_last_modified_user = PNone \<rparr>),
               (''/app/b'', \<lparr> p_name = VarString_init ''/app/b'' PNone, p_type = PStr ''StringList'',
                   p_value = PList [VarString_init ''u'' PNone, VarString_init ''v'' PNone],
                   p_allowed_pattern = PNone,
                   p_description = PNone, p_key_id = PNone, p_overwrite = PNone, p_disable = PNone,
                   p_version = PNone, p_last_modified_date = PNone, p_last_modified_user = PNone \<rparr>)],
            pf_flush = PList [PStr ''/app''] \<rparr>
   \<and> distinct (map fst [(''.FLUSH'', PStr ''/app''), (''/app/a'', PStr ''y''),
                         (''/app/b'', PList [PStr ''u'', PStr ''v''])])
   \<and> map fst (pf_parameters \<lparr> pf_inputs = [],
            pf_parameters =
              [(''/app/a'', \<lparr> p_name = VarString_init ''/app/a'' PNone, p_type = PStr ''String'',
                   p_value = VarString_init ''y'' PNone, p_allowed_pattern = PNone,
                   p_description = PNone, p_key_id = PNone, p_overwrite = PNone, p_disable = PNone,
                   p_version = PNone, p_last_modified_date = PNone, p_last_modified_user = PNone \<rparr>),
               (''/app/b'', \<lparr> p_name = VarString_init ''/app/b'' PNone, p_type = PStr ''StringList'',
                   p_value = PList [VarString_init ''u'' PNone, VarString_init ''v'' PNone],
                   p_allowed_pattern = PNone,
                   p_description = PNone, p_key_id = PNone, p_overwrite = PNone, p_disable = PNone,
                   p_version = PNone, p_last_modified_date = PNone, p_last_modified_user = PNone \<rparr>)],
            pf_flush = PList [PStr ''/app''] \<rparr>)
      = [''/app/a'', ''/app/b'']"
proof -
  let ?doc = "[(''.FLUSH'', PStr ''/app''), (''/app/a'', PStr ''y''),
               (''/app/b'', PList [PStr ''u'', PStr ''v''])]"
  let ?pf = "\<lparr> pf_inputs = [],
            pf_parameters =
              [(''/app/a'', \<lparr> p_name = VarString_init ''/app/a'' PNone, p_type = PStr ''String'',
                   p_value = VarString_init ''y'' PNone, p_allowed_pattern = PNone,
                   p_description = PNone, p_key_id = PNone, p_overwrite = PNone, p_disable = PNone,
                   p_version = PNone, p_last_modified_date = PNone, p_last_modified_user = PNone \<rparr>),
               (''/app/b'', \<lparr> p_name = VarString_init ''/app/b'' PNone, p_type = PStr ''StringList'',
                   p_value = PList [VarString_init ''u'' PNone, VarString_init ''v'' PNone],
                   p_allowed_pattern = PNone,
                   p_description = PNone, p_key_id = PNone, p_overwrite = PNone, p_disable = PNone,
                   p_version = PNone, p_last_modified_date = PNone, p_last_modified_user = PNone \<rparr>)],
            pf_flush = PList [PStr ''/app''] \<rparr>"
  have ok: "parse_parameter_file ?doc False = Inr ?pf" by code_simp
  have keys: "distinct (map fst ?doc)" by simp
  from parse_parameter_keys[OF ok keys] ok keys show ?thesis
    by (simp add: startswith_dot_def)
qed

section \<open>Compiling a parsed document\<close>

text \<open>A \<open>VarString\<close> without references dumps to its text and touches nothing.\<close>

lemma dump_init_ref_free:
  "ref_free s \<Longrightarrow> VarString_dump r env (VarString_init s k) = Inr (PStr s, env)"
  by (cases s) (simp_all add: VarString_dump_def VarString_init_def ref_free_def)

lemma dump_load_ref_free:
  "VarString_dump r env (VarString_load x k) = Inr (x, env)" if "ref_free_obj x"
proof (cases x)
  case (PStr s)
  then show ?thesis using that by (simp add: ref_free_obj_def VarString_load_def dump_init_ref_free)
qed (use that in \<open>simp_all add: ref_free_obj_def VarString_load_def VarString_dump_def\<close>)

lemma VarString_init_not_None: "VarString_init s k \<noteq> PNone"
  by (simp add: VarString_init_def Let_def)

lemma dump_all_ref_free:
  "list_all is_ref_free_str xs \<Longrightarrow>
   dump_all r env (map (\<lambda>s. VarString_load s PNone) xs) = Inr (xs, env)"
proof (induction xs)
  case Nil then show ?case by simp
next
  case (Cons x xs)
  then have "ref_free_obj x" by (auto simp: is_ref_free_str_def ref_free_obj_def split: pyobj.splits)
  with Cons show ?case by (simp add: dump_load_ref_free)
qed

lemma join_strs_ref_free:
  "list_all is_ref_free_str xs \<Longrightarrow> join_strs xs = Inr (join '','' (map str_of xs))"
  by (auto simp: join_strs_def is_ref_free_str_def is_str_def list_all_iff split: pyobj.splits)


text \<open>Loading and dumping one plain entry.\<close>

lemma dict_has_get: "\<not> dict_has f k \<Longrightarrow> dict_get f k = PNone"
  by (simp add: dict_has_def dict_get_def)

lemma add_if_set_literal:
  "add_if_set (\<lambda>env. Inr (x, env)) k data env
     = Inr (if truthy x then dict_set data k x else data, env)"
  by (simp add: add_if_set_def)

lemma load_plain_nonsecure:
  assumes pl: "plain_fields n f" and ns: "\<not> dict_has f ''KeyId''"
  shows "\<exists>p. SSMParameter_load f False = Inr p
           \<and> SSMParameter_disable r env p = Inr (False, env)
           \<and> SSMParameter_dump r env p = Inr ((''Name'', PStr n) # round_trip_entry f, env)"
proof -
  from pl ns have name: "map_of f ''Name'' = Some (PStr n)" and rn: "ref_free n"
    and nd: "\<not> dict_has f ''Disable''" "\<not> dict_has f ''Disabled''"
    and ap: "ref_free_obj (dict_get f ''AllowedPattern'')"
    and ty: "\<not> py_eq_str (dict_get f ''Type'') ''SecureString''"
    and val: "case dict_get f ''Value'' of
                     PStr s \<Rightarrow> ref_free s
                   | PList xs \<Rightarrow> list_all is_ref_free_str xs \<and> truthy (dict_get f ''Type'')
                   | _ \<Rightarrow> False"
    by (simp_all add: plain_fields_def)
  have kid: "dict_get f ''KeyId'' = PNone" using ns by (rule dict_has_get)
  have dis: "dict_get f ''Disabled'' = PNone" using nd(2) by (rule dict_has_get)
  let ?T = "if truthy (dict_get f ''Type'') then dict_get f ''Type'' else PStr ''String''"
  have hasval: "map_of f ''Value'' \<noteq> None" using val
    by (auto simp: dict_get_def split: option.splits)
  have ty_ok: "(if \<not> truthy (dict_get f ''Type'') then infer_type f else Inr (dict_get f ''Type'')) = Inr ?T"
    using ns hasval by (auto simp: infer_type_def dict_item_def split: option.splits)
  have tns: "\<not> py_eq_str ?T ''SecureString''" using ty by simp
  show ?thesis
  proof (cases "dict_get f ''Value''")
    case (PStr s)
    with val have rs: "ref_free s" by simp
    let ?p = "\<lparr> p_name = VarString_init n PNone, p_type = ?T, p_value = VarString_init s PNone,
                 p_allowed_pattern = VarString_load (dict_get f ''AllowedPattern'') PNone,
                 p_description = dict_get f ''Description'',
                 p_key_id = PNone, p_overwrite = dict_get f ''Overwrite'', p_disable = PNone,
                 p_version = dict_get f ''Version'',
                 p_last_modified_date = dict_get f ''LastModifiedDate'',
                 p_last_modified_user = dict_get f ''LastModifiedUser'' \<rparr>"
    have ld: "SSMParameter_load f False = Inr ?p"
      using name ty_ok tns PStr kid dis nd
      by (simp add: SSMParameter_load_def dict_item_def load_varstring_def load_value_def
            VarString_load_def SSMParameter_init_def Let_def del: py_eq_str.simps)
    have d: "SSMParameter_disable r env ?p = Inr (False, env)"
      by (simp add: SSMParameter_disable_def)
    have nm: "SSMParameter_name r env ?p = Inr (PStr n, env)" for env
      using rn by (simp add: SSMParameter_name_def dump_init_ref_free)
    have v: "SSMParameter_value r env ?p = Inr (PStr s, env)" for env
      using rs by (simp add: SSMParameter_value_def dump_init_ref_free is_str_def VarString_init_not_None)
    have a: "SSMParameter_allowed_pattern r env ?p = Inr (dict_get f ''AllowedPattern'', env)" for env
      using ap by (simp add: SSMParameter_allowed_pattern_def dump_load_ref_free)
    have k: "SSMParameter_key_id r env ?p = Inr (PNone, env)" for env
      by (simp add: SSMParameter_key_id_def VarString_dump_def)
    have dmp: "SSMParameter_dump r env ?p = Inr ((''Name'', PStr n) # round_trip_entry f, env)"
      using ns PStr
      by (simp add: SSMParameter_dump_def nm v a k add_if_set_literal round_trip_entry_def
            del: py_eq_str.simps)
    from ld d dmp show ?thesis by blast
  next
    case (PList xs)
    with val have rs: "list_all is_ref_free_str xs" and tt: "truthy (dict_get f ''Type'')" by simp_all
    let ?p = "\<lparr> p_name = VarString_init n PNone, p_type = ?T,
                 p_value = PList (map (\<lambda>s. VarString_load s PNone) xs),
                 p_allowed_pattern = VarString_load (dict_get f ''AllowedPattern'') PNone,
                 p_description = dict_get f ''Description'',
                 p_key_id = PNone, p_overwrite = dict_get f ''Overwrite'', p_disable = PNone,
                 p_version = dict_get f ''Version'',
                 p_last_modified_date = dict_get f ''LastModifiedDate'',
                 p_last_modified_user = dict_get f ''LastModifiedUser'' \<rparr>"
    have ld: "SSMParameter_load f False = Inr ?p"
      using name ty_ok tns PList kid dis nd
      by (simp add: SSMParameter_load_def dict_item_def load_varstring_def load_value_def
            VarString_load_def SSMParameter_init_def Let_def del: py_eq_str.simps)
    have d: "SSMParameter_disable r env ?p = Inr (False, env)"
      by (simp add: SSMParameter_disable_def)
    have nm: "SSMParameter_name r env ?p = Inr (PStr n, env)" for env
      using rn by (simp add: SSMParameter_name_def dump_init_ref_free)
    have v: "SSMParameter_value r env ?p = Inr (PStr (join '','' (map str_of xs)), env)" for env
      using rs
      by (simp add: SSMParameter_value_def VarString_dump_def is_str_def dump_all_ref_free
            join_strs_ref_free)
    have a: "SSMParameter_allowed_pattern r env ?p = Inr (dict_get f ''AllowedPattern'', env)" for env
      using ap by (simp add: SSMParameter_allowed_pattern_def dump_load_ref_free)
    have k: "SSMParameter_key_id r env ?p = Inr (PNone, env)" for env
      by (simp add: SSMParameter_key_id_def VarString_dump_def)
    have dmp: "SSMParameter_dump r env ?p = Inr ((''Name'', PStr n) # round_trip_entry f, env)"
      using ns PList
      by (simp add: SSMParameter_dump_def nm v a k add_if_set_literal round_trip_entry_def
            del: py_eq_str.simps)
    from ld d dmp show ?thesis by blast
  qed (use val in simp_all)
qed


lemma load_plain_secure:
  assumes pl: "plain_fields n f" and sec: "dict_has f ''KeyId''"
  shows "\<exists>p. SSMParameter_load f False = Inr p
           \<and> SSMParameter_disable r env p = Inr (False, env)
           \<and> SSMParameter_dump r env p = Inr ((''Name'', PStr n) # round_trip_entry f, env)"
proof -
  from pl sec have name: "map_of f ''Name'' = Some (PStr n)" and rn: "ref_free n"
    and nd: "\<not> dict_has f ''Disable''" "\<not> dict_has f ''Disabled''"
    and ap: "ref_free_obj (dict_get f ''AllowedPattern'')"
    and kid: "is_ref_free_str (dict_get f ''KeyId'')" "truthy (dict_get f ''KeyId'')"
    and ev: "dict_has f ''EncryptedValue''" "is_ref_free_str (dict_get f ''EncryptedValue'')"
    and ty: "truthy (dict_get f ''Type'') \<longrightarrow> py_eq_str (dict_get f ''Type'') ''SecureString''"
    by (simp_all add: plain_fields_def)
  from kid obtain k where k: "dict_get f ''KeyId'' = PStr k" "ref_free k" "k \<noteq> []"
    by (auto simp: is_ref_free_str_def split: pyobj.splits)
  from ev obtain c where c: "dict_get f ''EncryptedValue'' = PStr c" "ref_free c"
    by (auto simp: is_ref_free_str_def split: pyobj.splits)
  have dis: "dict_get f ''Disabled'' = PNone" using nd(2) by (rule dict_has_get)
  let ?T = "if truthy (dict_get f ''Type'') then dict_get f ''Type'' else PStr ''SecureString''"
  have ty_ok: "(if \<not> truthy (dict_get f ''Type'') then infer_type f else Inr (dict_get f ''Type'')) = Inr ?T"
    using sec by (auto simp: infer_type_def)
  have ts: "py_eq_str ?T ''SecureString''" using ty by simp
  let ?p = "\<lparr> p_name = VarString_init n PNone, p_type = ?T,
               p_value = VarString_init c (VarString_init k PNone),
               p_allowed_pattern = VarString_load (dict_get f ''AllowedPattern'') PNone,
               p_description = dict_get f ''Description'',
               p_key_id = VarString_init k PNone, p_overwrite = dict_get f ''Overwrite'',
               p_disable = PNone,
               p_version = dict_get f ''Version'',
               p_last_modified_date = dict_get f ''LastModifiedDate'',
               p_last_modified_user = dict_get f ''LastModifiedUser'' \<rparr>"
  have tk: "truthy (VarString_init k PNone)" by (simp add: VarString_init_def Let_def)
  have ld: "SSMParameter_load f False = Inr ?p"
    using name ty_ok ts k c ev(1) dis nd tk
    by (simp add: SSMParameter_load_def dict_item_def load_varstring_def load_varstring_key_id_def
          load_value_def VarString_load_def SSMParameter_init_def Let_def del: py_eq_str.simps)
  have d: "SSMParameter_disable r env ?p = Inr (False, env)"
    by (simp add: SSMParameter_disable_def)
  have nm: "SSMParameter_name r env ?p = Inr (PStr n, env)" for env
    using rn by (simp add: SSMParameter_name_def dump_init_ref_free)
  have v: "SSMParameter_value r env ?p = Inr (PStr c, env)" for env
    using c(2) by (simp add: SSMParameter_value_def dump_init_ref_free is_str_def VarString_init_not_None)
  have a: "SSMParameter_allowed_pattern r env ?p = Inr (dict_get f ''AllowedPattern'', env)" for env
    using ap by (simp add: SSMParameter_allowed_pattern_def dump_load_ref_free)
  have kk: "SSMParameter_key_id r env ?p = Inr (PStr k, env)" for env
    using k(2) by (simp add: SSMParameter_key_id_def dump_init_ref_free)
  have dmp: "SSMParameter_dump r env ?p = Inr ((''Name'', PStr n) # round_trip_entry f, env)"
    using sec k c
    by (simp add: SSMParameter_dump_def nm v a kk add_if_set_literal round_trip_entry_def
          add_if_set_def del: py_eq_str.simps)
  from ld d dmp show ?thesis by blast
qed

lemma load_plain:
  assumes "plain_fields n f"
  shows "\<exists>p. SSMParameter_load f False = Inr p
           \<and> SSMParameter_disable r env p = Inr (False, env)
           \<and> SSMParameter_dump r env p = Inr ((''Name'', PStr n) # round_trip_entry f, env)"
  using assms load_plain_secure load_plain_nonsecure by (cases "dict_has f ''KeyId''") blast+


text \<open>A plain \<open>.INPUT\<close> section loads, and an entry laid over a \<open>.COMMON\<close> dict gives
  its fields.\<close>

lemma Input_load_items_plain:
  "list_all (\<lambda>kv. case snd kv of
                     PStr t \<Rightarrow> True
                   | PDict data \<Rightarrow>
                       \<not> (py_eq (dict_get data ''Type'') (PStr ''SecureString'')
                          \<and> dict_has data ''Default'')
                   | _ \<Rightarrow> False) items
   \<Longrightarrow> \<exists>inputs. Input_load_items acc items = Inr inputs"
proof (induction items arbitrary: acc)
  case Nil
  then show ?case by simp
next
  case (Cons kv items)
  obtain n d where kv: "kv = (n, d)" by (cases kv)
  from Cons.prems kv have rest: "list_all (\<lambda>kv. case snd kv of
                     PStr t \<Rightarrow> True
                   | PDict data \<Rightarrow>
                       \<not> (py_eq (dict_get data ''Type'') (PStr ''SecureString'')
                          \<and> dict_has data ''Default'')
                   | _ \<Rightarrow> False) items" by simp
  from Cons.prems kv show ?case
    by (cases d) (auto simp: dict_has_def dict_get_def intro: Cons.IH[OF rest])
qed

lemma Input_load_plain: "plain_inputs x \<Longrightarrow> \<exists>inputs. Input_load x = Inr inputs"
  by (cases x) (auto simp: plain_inputs_def Input_load_def intro: Input_load_items_plain)

lemma param_data_of_plain:
  "is_dict c \<Longrightarrow> is_entry data \<Longrightarrow> param_data_of c n data = Inr (merged_fields c n data)"
  by (cases c; cases data)
     (simp_all add: is_dict_def is_entry_def merged_fields_def param_data_of_def dict_update_def)

text \<open>The two loops, over entries that load and dump without raising.\<close>

lemma dict_set_fresh: "k \<notin> fst ` set d \<Longrightarrow> dict_set d k v = d @ [(k, v)]"
  by (induction d) auto

lemma pydict_set_fresh:
  "\<forall>(k', v') \<in> set d. \<not> py_eq k' k \<Longrightarrow> pydict_set d k v = d @ [(k, v)]"
  by (induction d) auto

lemma round_trip_entry_no_Name: "filter (\<lambda>kv. fst kv \<noteq> ''Name'') (round_trip_entry f) = round_trip_entry f"
  by (simp add: round_trip_entry_def)

lemma parse_entries_plain:
  assumes "distinct (map fst acc @ map fst rest)"
    and "\<forall>(n, data) \<in> set rest. \<not> startswith_dot n \<longrightarrow>
           (\<exists>p. SSMParameter_load (merged_fields c n data) v = Inr p
                \<and> param_data_of c n data = Inr (merged_fields c n data))"
  shows "parse_entries c v acc rest
     = Inr (acc @ map (\<lambda>(n, data). (n, projr (SSMParameter_load (merged_fields c n data) v)))
                    (filter (\<lambda>(n, data). \<not> startswith_dot n) rest))"
  using assms
proof (induction rest arbitrary: acc)
  case Nil
  then show ?case by simp
next
  case (Cons a rest)
  obtain n data where a: "a = (n, data)" by (cases a)
  show ?case
  proof (cases "startswith_dot n")
    case True
    with Cons a show ?thesis by auto
  next
    case False
    with Cons.prems(2) a obtain p where p: "SSMParameter_load (merged_fields c n data) v = Inr p"
      and pd: "param_data_of c n data = Inr (merged_fields c n data)" by auto
    have fresh: "n \<notin> fst ` set acc" using Cons.prems(1) a by auto
    have d: "distinct (map fst (acc @ [(n, p)]) @ map fst rest)" using Cons.prems(1) a by auto
    have r: "\<forall>(n, data) \<in> set rest. \<not> startswith_dot n \<longrightarrow>
           (\<exists>p. SSMParameter_load (merged_fields c n data) v = Inr p
                \<and> param_data_of c n data = Inr (merged_fields c n data))"
      using Cons.prems(2) by auto
    from Cons.IH[OF d r] False a p pd fresh show ?thesis
      by (simp add: dict_set_fresh)
  qed
qed

lemma compile_entries_plain:
  assumes "distinct (map fst done @ map fst todo)"
    and "\<forall>(n, p, e) \<in> set todo.
           SSMParameter_disable r env p = Inr (False, env)
           \<and> SSMParameter_dump r env p = Inr ((''Name'', PStr n) # e, env)
           \<and> filter (\<lambda>kv. fst kv \<noteq> ''Name'') e = e"
  shows "compile_entries r ign (map (\<lambda>(n, e). (PStr n, PDict e)) done) env (map (\<lambda>(n, p, e). p) todo)
     = Inr (map (\<lambda>(n, e). (PStr n, PDict e)) (done @ map (\<lambda>(n, p, e). (n, e)) todo), env)"
  using assms
proof (induction todo arbitrary: "done")
  case Nil
  then show ?case by simp
next
  case (Cons a todo)
  obtain n p e where a: "a = (n, p, e)" by (cases a)
  from Cons.prems(2) a have dis: "SSMParameter_disable r env p = Inr (False, env)"
    and dmp: "SSMParameter_dump r env p = Inr ((''Name'', PStr n) # e, env)"
    and flt: "filter (\<lambda>kv. fst kv \<noteq> ''Name'') e = e" by auto
  have fresh: "\<forall>(k', v') \<in> set (map (\<lambda>(n, e). (PStr n, PDict e)) done). \<not> py_eq k' (PStr n)"
    using Cons.prems(1) a by (auto simp: rev_image_eqI)
  have d: "distinct (map fst (done @ [(n, e)]) @ map fst todo)" using Cons.prems(1) a by auto
  have r': "\<forall>(n, p, e) \<in> set todo.
           SSMParameter_disable r env p = Inr (False, env)
           \<and> SSMParameter_dump r env p = Inr ((''Name'', PStr n) # e, env)
           \<and> filter (\<lambda>kv. fst kv \<noteq> ''Name'') e = e"
    using Cons.prems(2) by auto
  from Cons.IH[OF d r'] a dis dmp flt pydict_set_fresh[OF fresh]
  show ?case by (simp add: hashable_def)
qed


text \<open>
  Claim C6 says that compiling the parsed parameters gives back the same \<open>Value\<close> for
  every entry. A list value comes back as one string, its elements joined by commas:
  \<open>{/app/hosts: [a, b]}\<close> compiles to \<open>Value: "a,b"\<close>. A \<open>SecureString\<close> entry, which
  must carry \<open>EncryptedValue\<close>, comes back with the ciphertext under \<open>Value\<close> and no
  \<open>EncryptedValue\<close>, a document that \<open>parse_parameter_file\<close> itself refuses.
\<close>

theorem compile_parse_counterexample:
  "(case parse_parameter_file list_entry_doc False of
      Inl e \<Rightarrow> Inl e
    | Inr pf \<Rightarrow> compile_parameter_file demo_remote [] (map snd (pf_parameters pf)) PNone False)
     = Inr ([(PStr ''/app/hosts'', PDict [(''Type'', PStr ''StringList''), (''Value'', PStr ''a,b'')])], [])
   \<and> (case parse_parameter_file secure_entry_doc False of
      Inl e \<Rightarrow> Inl e
    | Inr pf \<Rightarrow> compile_parameter_file demo_remote [] (map snd (pf_parameters pf)) PNone False)
     = Inr ([(PStr ''/app/secret'',
              PDict [(''Type'', PStr ''SecureString''), (''Value'', PStr ''AQICAHh''),
                     (''KeyId'', PStr ''alias/k'')])], [])
   \<and> parse_parameter_file
        [(''/app/secret'',
          PDict [(''Type'', PStr ''SecureString''), (''Value'', PStr ''AQICAHh''),
                 (''KeyId'', PStr ''alias/k'')])] False
     = Inl (ValueError ''Value cannot be used with SecureString'')"
  by code_simp

text \<open>
  Claim C6, amended. Take an ASCII document (\<open>plain_document\<close>; its keys are distinct, as
  those of a mapping are) in which
  \<^item> \<open>.INPUT\<close>, when present, maps every name to a type string or to a mapping that is
    not a \<open>SecureString\<close> with a \<open>Default\<close>;
  \<^item> \<open>.COMMON\<close>, when present, is a mapping;
  \<^item> every key that does not start with a dot maps to a string, a list or a mapping, and
    the fields of the entry (\<open>Name\<close> set to the key, overlaid by \<open>.COMMON\<close>, then by the
    entry with its sugar expanded) are plain: \<open>Name\<close> is still the key; there is no
    \<open>Disable\<close> and no \<open>Disabled\<close> field; neither the key nor a string \<open>AllowedPattern\<close>
    holds a variable reference; and either (a) there is no \<open>KeyId\<close> field, \<open>Type\<close> is not
    \<open>SecureString\<close>, and \<open>Value\<close> is a string without references or, with a true \<open>Type\<close>,
    a list of such strings, or (b) \<open>KeyId\<close> is a non-empty string and \<open>EncryptedValue\<close> a
    string, both without references, and \<open>Type\<close> is false or \<open>SecureString\<close>.

  Then the document parses, and compiling its parameters succeeds, leaves \<open>_VAR_VALUES\<close>
  as it was and gives, key by key in the document's order and for exactly the keys that
  do not start with a dot, the entry \<open>round_trip_entry\<close> describes: the \<open>Type\<close> of the
  fields when it is true, else \<open>SecureString\<close> in case (b) and \<open>String\<close> in case (a); as
  \<open>Value\<close> the string value, the list joined by commas, or in case (b) the
  \<open>EncryptedValue\<close>; \<open>AllowedPattern\<close> and \<open>Description\<close> when they are true; and in
  case (b) the \<open>KeyId\<close>.
\<close>

theorem compile_parse_round_trip:
  assumes "plain_document obj"
  shows "\<exists>pf. parse_parameter_file obj False = Inr pf
     \<and> compile_parameter_file r env (map snd (pf_parameters pf)) PNone False
         = Inr (map (\<lambda>(n, data).
                       (PStr n,
                        PDict (round_trip_entry
                                 (merged_fields (dict_get_or obj ''.COMMON'' (PDict [])) n data))))
                  (filter (\<lambda>(n, data). \<not> startswith_dot n) obj),
                env)"
proof -
  let ?c = "dict_get_or obj ''.COMMON'' (PDict [])"
  let ?P = "\<lambda>n data. projr (SSMParameter_load (merged_fields ?c n data) False)"
  let ?entries = "filter (\<lambda>(n, data). \<not> startswith_dot n) obj"
  from assms have dist: "distinct (map fst obj)"
    and pin: "plain_inputs (dict_get_or obj ''.INPUT'' (PDict []))"
    and cd: "is_dict ?c"
    and ent: "\<forall>(n, data) \<in> set obj. \<not> startswith_dot n \<longrightarrow>
               is_entry data \<and> plain_fields n (merged_fields ?c n data)"
    by (auto simp: plain_document_def list_all_iff)
  from pin have inp: "\<exists>inputs. Input_load (dict_get_or obj ''.INPUT'' (PDict [])) = Inr inputs"
    by (rule Input_load_plain)
  have pl: "\<forall>(n, data) \<in> set obj. \<not> startswith_dot n \<longrightarrow>
               param_data_of ?c n data = Inr (merged_fields ?c n data)
               \<and> plain_fields n (merged_fields ?c n data)"
    using ent cd by (auto dest: param_data_of_plain)
  have each: "SSMParameter_load (merged_fields ?c n data) False = Inr (?P n data)
        \<and> SSMParameter_disable r env (?P n data) = Inr (False, env)
        \<and> SSMParameter_dump r env (?P n data)
            = Inr ((''Name'', PStr n) # round_trip_entry (merged_fields ?c n data), env)"
    if "(n, data) \<in> set obj" "\<not> startswith_dot n" for n data
  proof -
    from pl that have "plain_fields n (merged_fields ?c n data)" by auto
    from load_plain[OF this, of r env] show ?thesis by auto
  qed
  have pe: "parse_entries ?c False [] obj
      = Inr ([] @ map (\<lambda>(n, data). (n, ?P n data)) ?entries)"
  proof (rule parse_entries_plain)
    show "distinct (map fst ([] :: (string \<times> ssm_parameter) list) @ map fst obj)"
      using dist by simp
    show "\<forall>(n, data) \<in> set obj. \<not> startswith_dot n \<longrightarrow>
           (\<exists>p. SSMParameter_load (merged_fields ?c n data) False = Inr p
                \<and> param_data_of ?c n data = Inr (merged_fields ?c n data))"
      using each pl by blast
  qed
  let ?pf = "\<lparr> pf_inputs = projr (Input_load (dict_get_or obj ''.INPUT'' (PDict []))),
               pf_parameters = map (\<lambda>(n, data). (n, ?P n data)) ?entries,
               pf_flush = (if is_str (dict_get_or obj ''.FLUSH'' (PList []))
                           then PList [dict_get_or obj ''.FLUSH'' (PList [])]
                           else dict_get_or obj ''.FLUSH'' (PList [])) \<rparr>"
  have parse: "parse_parameter_file obj False = Inr ?pf"
    using inp pe by (auto simp: parse_parameter_file_def Let_def)
  let ?todo = "map (\<lambda>(n, data). (n, ?P n data, round_trip_entry (merged_fields ?c n data))) ?entries"
  have ce: "compile_entries r False (map (\<lambda>(n, e). (PStr n, PDict e)) []) env
               (map (\<lambda>(n, p, e). p) ?todo)
      = Inr (map (\<lambda>(n, e). (PStr n, PDict e)) ([] @ map (\<lambda>(n, p, e). (n, e)) ?todo), env)"
  proof (rule compile_entries_plain)
    have mf: "map fst ?todo = map fst ?entries" by (simp add: case_prod_beta comp_def)
    show "distinct (map fst ([] :: (string \<times> (string \<times> pyobj) list) list) @ map fst ?todo)"
      unfolding mf using dist by (simp add: distinct_map_filter)
    show "\<forall>(n, p, e) \<in> set ?todo.
           SSMParameter_disable r env p = Inr (False, env)
           \<and> SSMParameter_dump r env p = Inr ((''Name'', PStr n) # e, env)
           \<and> filter (\<lambda>kv. fst kv \<noteq> ''Name'') e = e"
      using each by (auto simp: round_trip_entry_no_Name)
  qed
  have m1: "map (\<lambda>(n, p, e). p) ?todo = map snd (pf_parameters ?pf)"
    by (simp add: case_prod_beta comp_def)
  have m2: "map (\<lambda>(n, e). (PStr n, PDict e)) ([] @ map (\<lambda>(n, p, e). (n, e)) ?todo)
      = map (\<lambda>(n, data). (PStr n, PDict (round_trip_entry (merged_fields ?c n data)))) ?entries"
    by (simp add: case_prod_beta comp_def)
  have "compile_parameter_file r env (map snd (pf_parameters ?pf)) PNone False
      = Inr (map (\<lambda>(n, data). (PStr n, PDict (round_trip_entry (merged_fields ?c n data)))) ?entries, env)"
    using ce unfolding m1 m2 by (simp add: compile_parameter_file_def)
  with parse show ?thesis by blast
qed

theorem compile_parse_round_trip_witness:
  "plain_document round_trip_doc
   \<and> (\<exists>pf. parse_parameter_file round_trip_doc False = Inr pf
     \<and> compile_parameter_file demo_remote [] (map snd (pf_parameters pf)) PNone False
         = Inr ([(PStr ''/app/name'',
                  PDict [(''Type'', PStr ''String''), (''Value'', PStr ''demo''),
                         (''Description'', PStr ''shared'')]),
                 (PStr ''/app/hosts'',
                  PDict [(''Type'', PStr ''StringList''), (''Value'', PStr ''a,b''),
                         (''Description'', PStr ''shared'')]),
                 (PStr ''/app/port'',
                  PDict [(''Type'', PStr ''String''), (''Value'', PStr ''8080''),
                         (''AllowedPattern'', PStr ''^[0-9]+$''),
                         (''Description'', PStr ''listening port'')]),
                 (PStr ''/app/secret'',
                  PDict [(''Type'', PStr ''SecureString''), (''Value'', PStr ''AQICAHh''),
                         (''Description'', PStr ''shared''), (''KeyId'', PStr ''alias/k'')])],
                []))"
proof -
  have pd: "plain_document round_trip_doc" by code_simp
  have ex: "map (\<lambda>(n, data).
                       (PStr n,
                        PDict (round_trip_entry
                                 (merged_fields (dict_get_or round_trip_doc ''.COMMON'' (PDict [])) n data))))
                  (filter (\<lambda>(n, data). \<not> startswith_dot n) round_trip_doc)
      = [(PStr ''/app/name'',
                  PDict [(''Type'', PStr ''String''), (''Value'', PStr ''demo''),
                         (''Description'', PStr ''shared'')]),
                 (PStr ''/app/hosts'',
                  PDict [(''Type'', PStr ''StringList''), (''Value'', PStr ''a,b''),
                         (''Description'', PStr ''shared'')]),
                 (PStr ''/app/port'',
                  PDict [(''Type'', PStr ''String''), (''Value'', PStr ''8080''),
                         (''AllowedPattern'', PStr ''^[0-9]+$''),
                         (''Description'', PStr ''listening port'')]),
                 (PStr ''/app/secret'',
                  PDict [(''Type'', PStr ''SecureString''), (''Value'', PStr ''AQICAHh''),
                         (''Description'', PStr ''shared''), (''KeyId'', PStr ''alias/k'')])]"
    by code_simp
  from compile_parse_round_trip[OF pd, of demo_remote "[]"] pd show ?thesis
    unfolding ex by simp
qed

end
